theory Spec2Isabelle
  imports Main "HOL-Library.AList"
begin

section \<open>Python values\<close>

text \<open>
  The handlers of \<^verbatim>\<open>discord/state.py\<close> receive already decoded gateway records: Python
  dicts whose values are JSON values. A dict is an association list in insertion order.
\<close>

datatype json =
    JNull
  | JBool bool
  | JInt int
  | JStr string
  | JList "json list"
  | JObj "(string \<times> json) list"

type_synonym pydict = "(string \<times> json) list"

datatype error =
    KeyError
  | ValueError
  | TypeError
  | AttributeError
  | IndexError
  | InvalidStateError
  | PredicateError nat

text \<open>\<^verbatim>\<open>data.get(k)\<close>: the value, or None when the key is absent.\<close>

definition py_get :: "pydict \<Rightarrow> string \<Rightarrow> json" where
  "py_get data k = (case map_of data k of None \<Rightarrow> JNull | Some v \<Rightarrow> v)"

text \<open>\<^verbatim>\<open>data.get(k, False)\<close>.\<close>

definition py_get_default_False :: "pydict \<Rightarrow> string \<Rightarrow> json" where
  "py_get_default_False data k = (case map_of data k of None \<Rightarrow> JBool False | Some v \<Rightarrow> v)"

text \<open>\<^verbatim>\<open>data[k]\<close>: raises KeyError when the key is absent.\<close>

definition py_item :: "pydict \<Rightarrow> string \<Rightarrow> error + json" where
  "py_item data k = (case map_of data k of None \<Rightarrow> Inl KeyError | Some v \<Rightarrow> Inr v)"

text \<open>Truth value of a Python object, as \<^verbatim>\<open>if x\<close> and \<^verbatim>\<open>not x\<close> take it.\<close>

fun py_truthy :: "json \<Rightarrow> bool" where
  "py_truthy JNull = False"
| "py_truthy (JBool b) = b"
| "py_truthy (JInt n) = (n \<noteq> 0)"
| "py_truthy (JStr s) = (s \<noteq> [])"
| "py_truthy (JList xs) = (xs \<noteq> [])"
| "py_truthy (JObj kvs) = (kvs \<noteq> [])"

text \<open>
  \<^verbatim>\<open>x == True\<close> and \<^verbatim>\<open>x == False\<close>: Python's bool is an int, so 1 equals True and 0
  equals False; None, strings, lists and dicts equal neither.
\<close>

fun py_eq_bool :: "json \<Rightarrow> bool \<Rightarrow> bool" where
  "py_eq_bool (JBool b) t = (b = t)"
| "py_eq_bool (JInt n) t = (n = (if t then 1 else 0))"
| "py_eq_bool _ t = False"

text \<open>\<^verbatim>\<open>k == x\<close> for an int \<open>k\<close> and a value \<open>x\<close> of a record.\<close>

fun py_eq_int :: "int \<Rightarrow> json \<Rightarrow> bool" where
  "py_eq_int k (JInt n) = (k = n)"
| "py_eq_int k (JBool b) = (k = (if b then 1 else 0))"
| "py_eq_int k _ = False"

text \<open>
  The key a value is in a dict whose keys are ints: an int is itself, a bool is 0 or 1,
  None and a string equal no int key, and a list or dict is unhashable (TypeError).
\<close>

fun py_key :: "json \<Rightarrow> error + int option" where
  "py_key (JInt n) = Inr (Some n)"
| "py_key (JBool b) = Inr (Some (if b then 1 else 0))"
| "py_key JNull = Inr None"
| "py_key (JStr s) = Inr None"
| "py_key (JList xs) = Inl TypeError"
| "py_key (JObj kvs) = Inl TypeError"

text \<open>
  \<^verbatim>\<open>int(x)\<close>. A string is read as an optionally signed run of ASCII decimal digits, the
  form of the ids in gateway records; every other string is a ValueError here (Python
  also accepts surrounding whitespace and underscores between digits).
\<close>

definition is_digit :: "char \<Rightarrow> bool" where
  "is_digit c = (48 \<le> (of_char c :: nat) \<and> (of_char c :: nat) \<le> 57)"

fun digits_value :: "nat \<Rightarrow> string \<Rightarrow> nat option" where
  "digits_value acc [] = Some acc"
| "digits_value acc (c # cs) =
     (if is_digit c then digits_value (10 * acc + (of_char c - 48)) cs else None)"

definition int_of_str :: "string \<Rightarrow> int option" where
  "int_of_str s =
     (case s of
        [] \<Rightarrow> None
      | c # cs \<Rightarrow>
          if c = CHR ''-'' then
            (if cs = [] then None else map_option (\<lambda>n. - int n) (digits_value 0 cs))
          else if c = CHR ''+'' then
            (if cs = [] then None else map_option int (digits_value 0 cs))
          else map_option int (digits_value 0 s))"

fun py_int :: "json \<Rightarrow> error + int" where
  "py_int (JInt n) = Inr n"
| "py_int (JBool b) = Inr (if b then 1 else 0)"
| "py_int (JStr s) = (case int_of_str s of None \<Rightarrow> Inl ValueError | Some n \<Rightarrow> Inr n)"
| "py_int _ = Inl TypeError"

text \<open>\<^verbatim>\<open>int(data[k])\<close>.\<close>

definition py_int_item :: "pydict \<Rightarrow> string \<Rightarrow> error + int" where
  "py_int_item data k = (case py_item data k of Inl e \<Rightarrow> Inl e | Inr v \<Rightarrow> py_int v)"

section \<open>Entities\<close>

text \<open>
  Modelled from the spec: the entity classes (\<^verbatim>\<open>User\<close>, \<^verbatim>\<open>Guild\<close>, \<^verbatim>\<open>Message\<close>,
  \<^verbatim>\<open>Reaction\<close>, the channel classes) are imported by \<^verbatim>\<open>state.py\<close> and are not part of
  it. Each record keeps the fields the spec's data model gives the entity and the
  engine reads. A user, created once and never mutated, carries the identity of the
  object that was allocated for it (\<open>uref\<close>); guilds and futures, which are mutated
  through aliases, live in stores indexed by object identity.
\<close>

datatype channel_kind = TextChannel | VoiceChannel | DMChannel | GroupChannel

record channel =
  cid :: int
  kind :: channel_kind
  cguild :: "nat option"
  recipient :: "int option"

record user =
  uref :: nat
  uid :: int
  udata :: pydict

record guild =
  gid :: int
  unavailable :: bool
  large :: bool
  member_count :: int
  channels :: "(int \<times> channel) list"

record reaction =
  emoji :: json
  count :: int
  me :: bool

record message =
  mid :: int
  mchannel :: "channel option"
  reactions :: "reaction list"

datatype call = GroupCall pydict

datatype voice_client = VoiceClient nat

section \<open>The connection state\<close>

datatype ListenerType = chunk

text \<open>
  A listener holds its future by reference. The predicate is an arbitrary callable:
  it returns a truth value or raises.
\<close>

record listener =
  ltype :: ListenerType
  future :: nat
  predicate :: "guild option \<Rightarrow> error + bool"

text \<open>The states of an \<^verbatim>\<open>asyncio.Future\<close>.\<close>

datatype fstate = Pending | Cancelled | Finished json | Failed error

record ReadyState =
  launch :: bool
  ready_guilds :: "nat list"

datatype evarg =
    AGuild nat
  | AMessage message
  | AReaction reaction
  | AMember json

type_synonym event = "string \<times> evarg list"

datatype task = DelayReady | ChunkAndDispatch nat json

text \<open>
  The attributes of \<^verbatim>\<open>ConnectionState\<close>, followed by what the engine shares with its
  surroundings: the guild objects and the futures (by identity), the next fresh
  identity, the calls made to the injected \<^verbatim>\<open>dispatch\<close>, \<^verbatim>\<open>chunker\<close> and \<^verbatim>\<open>syncer\<close>,
  and the coroutines handed to \<^verbatim>\<open>compat.create_task\<close>.
\<close>

record state =
  max_messages :: nat
  is_bot :: "bool option"
  listeners :: "listener list"
  user :: "user option"
  sequence :: "int option"
  session_id :: "string option"
  calls :: "(int \<times> call) list"
  users :: "(int \<times> user) list"
  guilds :: "(int \<times> nat) list"
  voice_clients :: "(int \<times> voice_client) list"
  private_channels :: "(int \<times> channel) list"
  private_channels_by_user :: "(int \<times> channel) list"
  messages :: "message list"
  ready_state :: "ReadyState option"
  guild_objs :: "nat \<Rightarrow> guild"
  futures :: "nat \<Rightarrow> fstate"
  next_ref :: nat
  dispatched :: "event list"
  chunker_calls :: "nat list list"
  syncer_calls :: "int list list"
  tasks :: "task list"

text \<open>\<^verbatim>\<open>clear\<close>: every cache is reset; \<^verbatim>\<open>_listeners\<close> is not touched.\<close>

definition clear :: "state \<Rightarrow> state" where
  "clear s = s\<lparr>user := None, sequence := None, session_id := None, calls := [],
     users := [], guilds := [], voice_clients := [], private_channels := [],
     private_channels_by_user := [], messages := []\<rparr>"

definition empty_guild :: guild where
  "empty_guild = \<lparr>gid = 0, unavailable = False, large = False, member_count = 0, channels = []\<rparr>"

text \<open>
  \<^verbatim>\<open>__init__\<close>: \<open>requested\<close> is the \<^verbatim>\<open>max_messages\<close> option when given. The capacity
  is at least 100, so it is kept as a natural number.
\<close>

definition init :: "int option \<Rightarrow> state" where
  "init requested = clear
     \<lparr>max_messages = nat (max (case requested of None \<Rightarrow> 5000 | Some m \<Rightarrow> m) 100),
      is_bot = None, listeners = [], user = None, sequence = None, session_id = None,
      calls = [], users = [], guilds = [], voice_clients = [], private_channels = [],
      private_channels_by_user = [], messages = [], ready_state = None,
      guild_objs = (\<lambda>r. empty_guild), futures = (\<lambda>f. Pending), next_ref = 0,
      dispatched = [], chunker_calls = [], syncer_calls = [], tasks = []\<rparr>"

definition dispatch :: "string \<Rightarrow> evarg list \<Rightarrow> state \<Rightarrow> state" where
  "dispatch name args s = s\<lparr>dispatched := dispatched s @ [(name, args)]\<rparr>"

section \<open>The listener registry\<close>

text \<open>
  \<^verbatim>\<open>future.set_result\<close> and \<^verbatim>\<open>future.set_exception\<close> raise InvalidStateError on a
  future that is already done.
\<close>

definition set_result :: "(nat \<Rightarrow> fstate) \<Rightarrow> nat \<Rightarrow> json \<Rightarrow> error + (nat \<Rightarrow> fstate)" where
  "set_result F f r = (if F f = Pending then Inr (F(f := Finished r)) else Inl InvalidStateError)"

definition set_exception :: "(nat \<Rightarrow> fstate) \<Rightarrow> nat \<Rightarrow> error \<Rightarrow> error + (nat \<Rightarrow> fstate)" where
  "set_exception F f e = (if F f = Pending then Inr (F(f := Failed e)) else Inl InvalidStateError)"

text \<open>
  The first loop of \<^verbatim>\<open>process_listeners\<close>, over \<^verbatim>\<open>enumerate(self._listeners)\<close> from
  index \<open>i\<close> on: it returns the exception that escaped (if any), the futures and the
  indices collected in \<^verbatim>\<open>removed\<close>.
\<close>

fun scan_listeners ::
  "ListenerType \<Rightarrow> guild option \<Rightarrow> json \<Rightarrow> nat \<Rightarrow> listener list \<Rightarrow> (nat \<Rightarrow> fstate) \<Rightarrow> nat list
     \<Rightarrow> error option \<times> (nat \<Rightarrow> fstate) \<times> nat list" where
  "scan_listeners t argument result i [] F removed = (None, F, removed)"
| "scan_listeners t argument result i (l # ls) F removed =
     (if ltype l \<noteq> t then scan_listeners t argument result (Suc i) ls F removed
      else if F (future l) = Cancelled then
        scan_listeners t argument result (Suc i) ls F (removed @ [i])
      else
        (case predicate l argument of
           Inl e \<Rightarrow>
             (case set_exception F (future l) e of
                Inl err \<Rightarrow> (Some err, F, removed)
              | Inr F' \<Rightarrow> scan_listeners t argument result (Suc i) ls F' (removed @ [i]))
         | Inr passed \<Rightarrow>
             if passed then
               (case set_result F (future l) result of
                  Inl err \<Rightarrow> (Some err, F, removed)
                | Inr F' \<Rightarrow>
                    if ltype l = chunk then (None, F', removed @ [i])
                    else scan_listeners t argument result (Suc i) ls F' (removed @ [i]))
             else scan_listeners t argument result (Suc i) ls F removed))"

text \<open>\<^verbatim>\<open>del xs[i]\<close> for an index of the list.\<close>

definition delete_at :: "nat \<Rightarrow> 'a list \<Rightarrow> 'a list" where
  "delete_at i xs = take i xs @ drop (Suc i) xs"

text \<open>
  \<^verbatim>\<open>process_listeners\<close>. An exception leaves the first loop before any listener is
  deleted; the futures already resolved stay resolved.
\<close>

definition process_listeners ::
  "ListenerType \<Rightarrow> guild option \<Rightarrow> json \<Rightarrow> state \<Rightarrow> error option \<times> state" where
  "process_listeners t argument result s =
     (case scan_listeners t argument result 0 (listeners s) (futures s) [] of
        (Some e, F, removed) \<Rightarrow> (Some e, s\<lparr>futures := F\<rparr>)
      | (None, F, removed) \<Rightarrow>
          (None, s\<lparr>listeners := fold delete_at (rev removed) (listeners s), futures := F\<rparr>))"

text \<open>The predicate \<^verbatim>\<open>lambda s: s.id == guild_id\<close>; None has no \<^verbatim>\<open>id\<close>.\<close>

definition chunk_predicate :: "int \<Rightarrow> guild option \<Rightarrow> error + bool" where
  "chunk_predicate guild_id a =
     (case a of None \<Rightarrow> Inl AttributeError | Some g \<Rightarrow> Inr (gid g = guild_id))"

text \<open>\<^verbatim>\<open>receive_chunk\<close>: a fresh future, registered under the chunk class.\<close>

definition receive_chunk :: "int \<Rightarrow> state \<Rightarrow> nat \<times> state" where
  "receive_chunk guild_id s =
     (let f = next_ref s in
      (f, s\<lparr>listeners := listeners s @
               [\<lparr>ltype = chunk, future = f, predicate = chunk_predicate guild_id\<rparr>],
             futures := (futures s)(f := Pending),
             next_ref := Suc f\<rparr>))"

section \<open>The entity cache\<close>

text \<open>
  Modelled from the spec: \<^verbatim>\<open>User(state=..., data=...)\<close>, whose class is not in
  \<^verbatim>\<open>state.py\<close>: a user keeps its numeric id and the record it was built from.
\<close>

definition User :: "nat \<Rightarrow> int \<Rightarrow> pydict \<Rightarrow> user" where
  "User r user_id data = \<lparr>uref = r, uid = user_id, udata = data\<rparr>"

text \<open>\<^verbatim>\<open>try_insert_user\<close>.\<close>

definition try_insert_user :: "pydict \<Rightarrow> state \<Rightarrow> (error + user) \<times> state" where
  "try_insert_user data s =
     (case py_int_item data ''id'' of
        Inl e \<Rightarrow> (Inl e, s)
      | Inr user_id \<Rightarrow>
          (case map_of (users s) user_id of
             Some u \<Rightarrow> (Inr u, s)
           | None \<Rightarrow>
               (let u = User (next_ref s) user_id data in
                (Inr u, s\<lparr>users := AList.update user_id u (users s),
                          next_ref := Suc (next_ref s)\<rparr>))))"

text \<open>
  \<^verbatim>\<open>_get_guild\<close>: \<^verbatim>\<open>self._guilds.get(guild_id)\<close>. The map is keyed by the guilds'
  int ids; the argument is whatever the caller passes, an int or a raw value of a record.
\<close>

definition get_guild :: "json \<Rightarrow> state \<Rightarrow> error + nat option" where
  "get_guild guild_id s =
     (case py_key guild_id of
        Inl e \<Rightarrow> Inl e
      | Inr None \<Rightarrow> Inr None
      | Inr (Some k) \<Rightarrow> Inr (map_of (guilds s) k))"

definition add_guild :: "nat \<Rightarrow> state \<Rightarrow> state" where
  "add_guild r s = s\<lparr>guilds := AList.update (gid (guild_objs s r)) r (guilds s)\<rparr>"

definition remove_guild :: "nat \<Rightarrow> state \<Rightarrow> state" where
  "remove_guild r s = s\<lparr>guilds := AList.delete (gid (guild_objs s r)) (guilds s)\<rparr>"

text \<open>\<^verbatim>\<open>_add_private_channel\<close>; a DM channel without a recipient has no \<^verbatim>\<open>recipient.id\<close>.\<close>

definition add_private_channel :: "channel \<Rightarrow> state \<Rightarrow> error option \<times> state" where
  "add_private_channel ch s =
     (let s1 = s\<lparr>private_channels := AList.update (cid ch) ch (private_channels s)\<rparr> in
      if kind ch = DMChannel then
        (case recipient ch of
           None \<Rightarrow> (Some AttributeError, s1)
         | Some user_id \<Rightarrow>
             (None, s1\<lparr>private_channels_by_user :=
                         AList.update user_id ch (private_channels_by_user s1)\<rparr>))
      else (None, s1))"

text \<open>
  Modelled from the spec: \<^verbatim>\<open>utils.find\<close>, which \<^verbatim>\<open>_get_message\<close> calls, is not in
  \<^verbatim>\<open>state.py\<close>; find-by-id is a linear scan that returns the first match or None. The
  test is the one of the source, \<^verbatim>\<open>m.id == msg_id\<close>.
\<close>

definition get_message :: "json \<Rightarrow> state \<Rightarrow> message option" where
  "get_message msg_id s = find (\<lambda>m. py_eq_int (mid m) msg_id) (messages s)"

text \<open>
  Modelled from the spec: \<^verbatim>\<open>Guild._from_data\<close> is not in \<^verbatim>\<open>state.py\<close>. A guild is
  keyed by its numeric id and carries the unavailable flag, the large flag and the
  member count of the record; the spec gives no threshold for large, so the flag is
  read from the record.
\<close>

definition Guild_from_data :: "guild \<Rightarrow> pydict \<Rightarrow> error + guild" where
  "Guild_from_data g data =
     (case py_int_item data ''id'' of
        Inl e \<Rightarrow> Inl e
      | Inr k \<Rightarrow>
          Inr (g\<lparr>gid := k,
                 unavailable := py_truthy (py_get data ''unavailable''),
                 large := py_truthy (py_get data ''large''),
                 member_count :=
                   (case py_get data ''member_count'' of JInt n \<Rightarrow> n | _ \<Rightarrow> member_count g)\<rparr>))"

text \<open>
  \<^verbatim>\<open>_add_guild_from_data\<close>: a new guild object, stored under its id. (The two
  properties it installs on the class \<^verbatim>\<open>Guild\<close> read the state and change nothing.)
\<close>

definition add_guild_from_data :: "pydict \<Rightarrow> state \<Rightarrow> (error + nat) \<times> state" where
  "add_guild_from_data data s =
     (case Guild_from_data empty_guild data of
        Inl e \<Rightarrow> (Inl e, s)
      | Inr g \<Rightarrow>
          (let r = next_ref s in
           (Inr r, add_guild r (s\<lparr>guild_objs := (guild_objs s)(r := g), next_ref := Suc r\<rparr>))))"

text \<open>
  \<^verbatim>\<open>math.ceil(a / b)\<close> for ints, \<open>b\<close> positive: the quotient rounded up. (The float
  quotient gives the same ceiling as long as \<open>a\<close> is below \<open>2 ^ 53\<close>.)
\<close>

definition py_ceil_div :: "int \<Rightarrow> int \<Rightarrow> int" where
  "py_ceil_div a b = - ((- a) div b)"

text \<open>\<^verbatim>\<open>chunks_needed\<close>, consumed at once: one \<^verbatim>\<open>receive_chunk\<close> per element of the range.\<close>

fun receive_chunks :: "nat \<Rightarrow> nat \<Rightarrow> state \<Rightarrow> nat list \<times> state" where
  "receive_chunks 0 r s = ([], s)"
| "receive_chunks (Suc n) r s =
     (case receive_chunk (gid (guild_objs s r)) s of
        (f, s1) \<Rightarrow> (case receive_chunks n r s1 of (fs, s2) \<Rightarrow> (f # fs, s2)))"

definition chunks_needed :: "nat \<Rightarrow> state \<Rightarrow> nat list \<times> state" where
  "chunks_needed r s = receive_chunks (nat (py_ceil_div (member_count (guild_objs s r)) 1000)) r s"

section \<open>The readiness orchestrator\<close>

text \<open>
  The coroutines are run without interleaving: at a suspension point (the sleep, the
  awaited collaborators, \<^verbatim>\<open>asyncio.wait\<close>) no other handler runs. \<^verbatim>\<open>asyncio.wait\<close> with
  a timeout returns whether or not the futures are done.
\<close>

function wait_launch :: "ReadyState \<Rightarrow> ReadyState" where
  "wait_launch rs = (if launch rs then rs else wait_launch (rs\<lparr>launch := True\<rparr>))"
  by pat_completeness auto
termination
  by (relation "measure (\<lambda>rs. if launch rs then 0 else 1)") auto

text \<open>\<^verbatim>\<open>for guild in guilds: chunks.extend(self.chunks_needed(guild))\<close>.\<close>

fun all_chunks :: "nat list \<Rightarrow> state \<Rightarrow> nat list \<times> state" where
  "all_chunks [] s = ([], s)"
| "all_chunks (r # rs) s =
     (case chunks_needed r s of
        (fs, s1) \<Rightarrow> (case all_chunks rs s1 of (fs', s2) \<Rightarrow> (fs @ fs', s2)))"

text \<open>\<^verbatim>\<open>[guilds[i:i + 75] for i in range(0, len(guilds), 75)]\<close>.\<close>

definition splits :: "'a list \<Rightarrow> 'a list list" where
  "splits xs = map (\<lambda>j. take 75 (drop (75 * j) xs)) [0 ..< (length xs + 74) div 75]"

definition chunker :: "nat list \<Rightarrow> state \<Rightarrow> state" where
  "chunker split s = s\<lparr>chunker_calls := chunker_calls s @ [split]\<rparr>"

definition syncer :: "int list \<Rightarrow> state \<Rightarrow> state" where
  "syncer ids s = s\<lparr>syncer_calls := syncer_calls s @ [ids]\<rparr>"

text \<open>\<^verbatim>\<open>_delay_ready\<close> up to the wait for the chunks: the futures it waits for, and the state.\<close>

definition delay_ready_chunks :: "state \<Rightarrow> (error + nat list) \<times> state" where
  "delay_ready_chunks s =
     (case ready_state s of
        None \<Rightarrow> (Inl AttributeError, s)
      | Some rs \<Rightarrow>
          (let rs' = wait_launch rs;
               s1 = s\<lparr>ready_state := Some rs'\<rparr>
           in case all_chunks (ready_guilds rs') s1 of
                (chunks, s2) \<Rightarrow> (Inr chunks, fold chunker (splits (ready_guilds rs')) s2)))"

text \<open>\<^verbatim>\<open>_delay_ready\<close> after the wait.\<close>

definition delay_ready_finish :: "state \<Rightarrow> state" where
  "delay_ready_finish s =
     (let s1 = s\<lparr>ready_state := None\<rparr>;
          s2 = (if is_bot s1 = Some True then s1
                else syncer (map (\<lambda>r. gid (guild_objs s1 r)) (map snd (guilds s1))) s1)
      in dispatch ''ready'' [] s2)"

definition delay_ready :: "state \<Rightarrow> error option \<times> state" where
  "delay_ready s =
     (case delay_ready_chunks s of
        (Inl e, s1) \<Rightarrow> (Some e, s1)
      | (Inr chunks, s1) \<Rightarrow> (None, delay_ready_finish s1))"

text \<open>
  The guild loop of \<^verbatim>\<open>parse_ready\<close>. The source binds \<^verbatim>\<open>guilds = data.get('guilds')\<close>
  and, on the next line, \<^verbatim>\<open>guilds = self._ready_state.guilds\<close>: the loop runs over the
  pending list of the ReadyState. Its first iteration would call
  \<^verbatim>\<open>self._add_server_from_data\<close>, which \<^verbatim>\<open>ConnectionState\<close> does not define.
\<close>

fun ready_guild_loop :: "nat list \<Rightarrow> state \<Rightarrow> error option \<times> state" where
  "ready_guild_loop [] s = (None, s)"
| "ready_guild_loop (guild_data # rest) s = (Some AttributeError, s)"

text \<open>
  The private channel loop of \<^verbatim>\<open>parse_ready\<close>. \<open>factory\<close> stands for
  \<^verbatim>\<open>_channel_factory(pm['type'])\<close> applied to the entry: the channel classes are not in
  \<^verbatim>\<open>state.py\<close>, so what they build from an entry (or raise) is a parameter.
\<close>

fun private_channel_loop ::
  "(json \<Rightarrow> error + channel) \<Rightarrow> json list \<Rightarrow> state \<Rightarrow> error option \<times> state" where
  "private_channel_loop factory [] s = (None, s)"
| "private_channel_loop factory (pm # pms) s =
     (case factory pm of
        Inl e \<Rightarrow> (Some e, s)
      | Inr ch \<Rightarrow>
          (case add_private_channel ch s of
             (Some e, s1) \<Rightarrow> (Some e, s1)
           | (None, s1) \<Rightarrow> private_channel_loop factory pms s1))"

text \<open>What \<^verbatim>\<open>for pm in x\<close> iterates over; None and numbers are not iterable.\<close>

fun py_iter :: "json \<Rightarrow> error + json list" where
  "py_iter (JList xs) = Inr xs"
| "py_iter (JStr cs) = Inr (map (\<lambda>c. JStr [c]) cs)"
| "py_iter (JObj kvs) = Inr (map (\<lambda>kv. JStr (fst kv)) kvs)"
| "py_iter _ = Inl TypeError"

definition spawn :: "task \<Rightarrow> state \<Rightarrow> state" where
  "spawn t s = s\<lparr>tasks := tasks s @ [t]\<rparr>"

definition parse_ready ::
  "(json \<Rightarrow> error + channel) \<Rightarrow> pydict \<Rightarrow> state \<Rightarrow> error option \<times> state" where
  "parse_ready factory data s =
     (let s1 = s\<lparr>ready_state := Some \<lparr>launch = False, ready_guilds = []\<rparr>\<rparr> in
      case py_item data ''user'' of
        Inl e \<Rightarrow> (Some e, s1)
      | Inr (JObj user_data) \<Rightarrow>
          (case try_insert_user user_data s1 of
             (Inl e, s2) \<Rightarrow> (Some e, s2)
           | (Inr u, s2) \<Rightarrow>
               (let s3 = s2\<lparr>user := Some u\<rparr>;
                    pending = (case ready_state s3 of None \<Rightarrow> [] | Some rs \<Rightarrow> ready_guilds rs)
                in case ready_guild_loop pending s3 of
                     (Some e, s4) \<Rightarrow> (Some e, s4)
                   | (None, s4) \<Rightarrow>
                       (case py_iter (py_get data ''private_channels'') of
                          Inl e \<Rightarrow> (Some e, s4)
                        | Inr pms \<Rightarrow>
                            (case private_channel_loop factory pms s4 of
                               (Some e, s5) \<Rightarrow> (Some e, s5)
                             | (None, s5) \<Rightarrow> (None, spawn DelayReady s5)))))
      | Inr _ \<Rightarrow> (Some TypeError, s1))"

section \<open>The message history buffer\<close>

text \<open>\<^verbatim>\<open>deque(xs, maxlen=n)\<close> keeps the last \<open>n\<close> items; \<^verbatim>\<open>append\<close> drops from the left.\<close>

definition deque :: "nat \<Rightarrow> 'a list \<Rightarrow> 'a list" where
  "deque n xs = drop (length xs - n) xs"

definition deque_append :: "nat \<Rightarrow> 'a list \<Rightarrow> 'a \<Rightarrow> 'a list" where
  "deque_append n xs x = deque n (xs @ [x])"

text \<open>
  Modelled from the spec: \<^verbatim>\<open>Guild.get_channel\<close>, which \<^verbatim>\<open>get_channel\<close> calls on each
  guild in turn, is not in \<^verbatim>\<open>state.py\<close>; a guild owns its channels, keyed by id.
\<close>

fun guild_channel :: "int \<Rightarrow> guild list \<Rightarrow> channel option" where
  "guild_channel k [] = None"
| "guild_channel k (g # gs) =
     (case map_of (channels g) k of Some c \<Rightarrow> Some c | None \<Rightarrow> guild_channel k gs)"

text \<open>
  \<^verbatim>\<open>get_channel\<close>: None for None, else the first guild channel with this id, else the
  private channel with this id.
\<close>

definition get_channel :: "json \<Rightarrow> state \<Rightarrow> error + channel option" where
  "get_channel channel_id s =
     (if channel_id = JNull then Inr None
      else
        (case py_key channel_id of
           Inl e \<Rightarrow> Inl e
         | Inr None \<Rightarrow> Inr None
         | Inr (Some k) \<Rightarrow>
             (case guild_channel k (map (\<lambda>kr. guild_objs s (snd kr)) (guilds s)) of
                Some c \<Rightarrow> Inr (Some c)
              | None \<Rightarrow> Inr (map_of (private_channels s) k))))"

text \<open>
  Modelled from the spec: \<^verbatim>\<open>Message(channel=..., data=..., state=...)\<close>, whose class is
  not in \<^verbatim>\<open>state.py\<close>: a message has a numeric id, references its channel and carries a
  list of reactions.
\<close>

definition Message :: "channel option \<Rightarrow> pydict \<Rightarrow> error + message" where
  "Message ch data =
     (case py_int_item data ''id'' of
        Inl e \<Rightarrow> Inl e
      | Inr k \<Rightarrow> Inr \<lparr>mid = k, mchannel = ch, reactions = []\<rparr>)"

definition parse_message_create :: "pydict \<Rightarrow> state \<Rightarrow> error option \<times> state" where
  "parse_message_create data s =
     (case py_int_item data ''channel_id'' of
        Inl e \<Rightarrow> (Some e, s)
      | Inr k \<Rightarrow>
          (case get_channel (JInt k) s of
             Inl e \<Rightarrow> (Some e, s)
           | Inr ch \<Rightarrow>
               (case Message ch data of
                  Inl e \<Rightarrow> (Some e, s)
                | Inr m \<Rightarrow>
                    (let s1 = dispatch ''message'' [AMessage m] s in
                     (None, s1\<lparr>messages := deque_append (max_messages s1) (messages s1) m\<rparr>)))))"

text \<open>A run of message-create records; a record whose handler raises is dropped.\<close>

fun message_creates :: "pydict list \<Rightarrow> state \<Rightarrow> state" where
  "message_creates [] s = s"
| "message_creates (data # rest) s = message_creates rest (snd (parse_message_create data s))"

text \<open>
  The message a message-create record adds to the buffer (None when the handler raises),
  and the messages a run of records adds, in arrival order.
\<close>

definition new_message :: "state \<Rightarrow> pydict \<Rightarrow> message option" where
  "new_message s data =
     (case py_int_item data ''channel_id'' of
        Inl e \<Rightarrow> None
      | Inr k \<Rightarrow>
          (case get_channel (JInt k) s of
             Inl e \<Rightarrow> None
           | Inr ch \<Rightarrow> (case Message ch data of Inl e \<Rightarrow> None | Inr m \<Rightarrow> Some m)))"

definition created :: "state \<Rightarrow> pydict list \<Rightarrow> message list" where
  "created s records = List.map_filter (new_message s) records"

section \<open>Reactions\<close>

text \<open>
  \<^verbatim>\<open>a == b\<close> on values of a record: numbers (bools among them) by value, everything
  else structurally.
\<close>

fun py_num :: "json \<Rightarrow> int option" where
  "py_num (JInt n) = Some n"
| "py_num (JBool b) = Some (if b then 1 else 0)"
| "py_num _ = None"

definition py_eq :: "json \<Rightarrow> json \<Rightarrow> bool" where
  "py_eq a b =
     (case (py_num a, py_num b) of
        (Some x, Some y) \<Rightarrow> x = y
      | _ \<Rightarrow> a = b)"

text \<open>
  \<^verbatim>\<open>_get_reaction_emoji\<close>. A falsy id means a unicode emoji, which is its name. For a
  custom emoji the method goes on to iterate \<^verbatim>\<open>self.servers\<close>, an attribute that
  \<^verbatim>\<open>ConnectionState\<close> does not have (its guilds are \<^verbatim>\<open>self.guilds\<close>).
\<close>

definition get_reaction_emoji :: "pydict \<Rightarrow> state \<Rightarrow> error + json" where
  "get_reaction_emoji data s =
     (case py_item data ''id'' of
        Inl e \<Rightarrow> Inl e
      | Inr emoji_id \<Rightarrow>
          if \<not> py_truthy emoji_id then py_item data ''name''
          else Inl AttributeError)"

text \<open>
  Modelled from the spec: the channel classes, whose attributes \<^verbatim>\<open>_get_member\<close> reads,
  are not in \<^verbatim>\<open>state.py\<close>; for a channel, the member or user with this id is resolved
  (or None), written here as the id that was looked up. For None the source fails on
  its own: None has no \<^verbatim>\<open>is_private\<close>.
\<close>

definition get_member :: "channel option \<Rightarrow> json \<Rightarrow> error + evarg" where
  "get_member ch user_id =
     (case ch of None \<Rightarrow> Inl AttributeError | Some c \<Rightarrow> Inr (AMember user_id))"

text \<open>
  Modelled from the spec: \<^verbatim>\<open>Reaction(message=..., emoji=..., me=..., **data)\<close>, whose
  class is not in \<^verbatim>\<open>state.py\<close>: the row of a first occurrence has count 1. A record
  with a key \<^verbatim>\<open>message\<close> or \<^verbatim>\<open>me\<close> gives the call the same keyword twice (TypeError).
\<close>

definition Reaction :: "json \<Rightarrow> bool \<Rightarrow> pydict \<Rightarrow> error + reaction" where
  "Reaction em is_me data =
     (if map_of data ''message'' = None \<and> map_of data ''me'' = None
      then Inr \<lparr>emoji = em, count = 1, me = is_me\<rparr>
      else Inl TypeError)"

text \<open>
  Modelled from the spec: \<^verbatim>\<open>utils.get(message.reactions, emoji=emoji)\<close>, which is not
  in \<^verbatim>\<open>state.py\<close>: the reaction is resolved by emoji identity, the first row whose emoji
  equals the given one, or None.
\<close>

definition get_reaction :: "json \<Rightarrow> reaction list \<Rightarrow> reaction option" where
  "get_reaction em rs = find (\<lambda>r. py_eq (emoji r) em) rs"

text \<open>Updating, and removing, the first element that satisfies a test.\<close>

fun update_first :: "('a \<Rightarrow> bool) \<Rightarrow> ('a \<Rightarrow> 'a) \<Rightarrow> 'a list \<Rightarrow> 'a list" where
  "update_first P f [] = []"
| "update_first P f (x # xs) = (if P x then f x # xs else x # update_first P f xs)"

fun remove_first :: "('a \<Rightarrow> bool) \<Rightarrow> 'a list \<Rightarrow> 'a list" where
  "remove_first P [] = []"
| "remove_first P (x # xs) = (if P x then xs else x # remove_first P xs)"

text \<open>
  The message found by \<^verbatim>\<open>_get_message\<close> is mutated in place: \<open>change\<close> is applied to
  the reaction list of the first message of the buffer with this id.
\<close>

definition on_reactions :: "json \<Rightarrow> (reaction list \<Rightarrow> reaction list) \<Rightarrow> state \<Rightarrow> state" where
  "on_reactions msg_id change s =
     s\<lparr>messages := update_first (\<lambda>m. py_eq_int (mid m) msg_id)
                      (\<lambda>m. m\<lparr>reactions := change (reactions m)\<rparr>) (messages s)\<rparr>"

text \<open>The end of both reaction handlers: channel, member, dispatch.\<close>

definition reaction_dispatch ::
  "string \<Rightarrow> pydict \<Rightarrow> reaction \<Rightarrow> state \<Rightarrow> error option \<times> state" where
  "reaction_dispatch name data r s =
     (case py_item data ''channel_id'' of
        Inl e \<Rightarrow> (Some e, s)
      | Inr channel_id \<Rightarrow>
          (case get_channel channel_id s of
             Inl e \<Rightarrow> (Some e, s)
           | Inr ch \<Rightarrow>
               (case py_item data ''user_id'' of
                  Inl e \<Rightarrow> (Some e, s)
                | Inr user_id \<Rightarrow>
                    (case get_member ch user_id of
                       Inl e \<Rightarrow> (Some e, s)
                     | Inr member \<Rightarrow> (None, dispatch name [AReaction r, member] s)))))"

text \<open>
  \<^verbatim>\<open>parse_message_reaction_add\<close>. \<^verbatim>\<open>data.pop('emoji')\<close> takes the emoji out of the
  record before the record is passed on as keywords. What was mutated before an
  exception stays mutated.
\<close>

definition parse_message_reaction_add :: "pydict \<Rightarrow> state \<Rightarrow> error option \<times> state" where
  "parse_message_reaction_add data s =
     (case py_item data ''message_id'' of
        Inl e \<Rightarrow> (Some e, s)
      | Inr msg_id \<Rightarrow>
          (case get_message msg_id s of
             None \<Rightarrow> (None, s)
           | Some msg \<Rightarrow>
               (case py_item data ''emoji'' of
                  Inl e \<Rightarrow> (Some e, s)
                | Inr (JObj emoji_data) \<Rightarrow>
                    (let data' = AList.delete ''emoji'' data in
                     case get_reaction_emoji emoji_data s of
                       Inl e \<Rightarrow> (Some e, s)
                     | Inr em \<Rightarrow>
                         (case py_item data' ''user_id'' of
                            Inl e \<Rightarrow> (Some e, s)
                          | Inr user_id \<Rightarrow>
                              (case user s of
                                 None \<Rightarrow> (Some AttributeError, s)
                               | Some u \<Rightarrow>
                                   (let is_me = py_eq_int (uid u) user_id in
                                    case get_reaction em (reactions msg) of
                                      None \<Rightarrow>
                                        (case Reaction em is_me data' of
                                           Inl e \<Rightarrow> (Some e, s)
                                         | Inr r \<Rightarrow>
                                             reaction_dispatch ''reaction_add'' data' r
                                               (on_reactions msg_id (\<lambda>rs. rs @ [r]) s))
                                    | Some r0 \<Rightarrow>
                                        (let r = r0\<lparr>count := count r0 + 1,
                                                    me := (if is_me then True else me r0)\<rparr>
                                         in reaction_dispatch ''reaction_add'' data' r
                                              (on_reactions msg_id
                                                 (update_first (\<lambda>r. py_eq (emoji r) em) (\<lambda>r0. r))
                                                 s))))))
                | Inr _ \<Rightarrow> (Some TypeError, s))))"

text \<open>\<^verbatim>\<open>parse_message_reaction_remove\<close>.\<close>

definition parse_message_reaction_remove :: "pydict \<Rightarrow> state \<Rightarrow> error option \<times> state" where
  "parse_message_reaction_remove data s =
     (case py_item data ''message_id'' of
        Inl e \<Rightarrow> (Some e, s)
      | Inr msg_id \<Rightarrow>
          (case get_message msg_id s of
             None \<Rightarrow> (None, s)
           | Some msg \<Rightarrow>
               (case py_item data ''emoji'' of
                  Inl e \<Rightarrow> (Some e, s)
                | Inr (JObj emoji_data) \<Rightarrow>
                    (case get_reaction_emoji emoji_data s of
                       Inl e \<Rightarrow> (Some e, s)
                     | Inr em \<Rightarrow>
                         (case get_reaction em (reactions msg) of
                            None \<Rightarrow> (None, s)
                          | Some r0 \<Rightarrow>
                              (let r1 = r0\<lparr>count := count r0 - 1\<rparr>;
                                   s1 = on_reactions msg_id
                                          (update_first (\<lambda>r. py_eq (emoji r) em) (\<lambda>r0. r1)) s
                               in case py_item data ''user_id'' of
                                    Inl e \<Rightarrow> (Some e, s1)
                                  | Inr user_id \<Rightarrow>
                                      (case user s1 of
                                         None \<Rightarrow> (Some AttributeError, s1)
                                       | Some u \<Rightarrow>
                                           (let r2 = (if py_eq_int (uid u) user_id
                                                      then r1\<lparr>me := False\<rparr> else r1);
                                                s2 = on_reactions msg_id
                                                       (if count r2 = 0
                                                        then remove_first (\<lambda>r. py_eq (emoji r) em)
                                                        else update_first (\<lambda>r. py_eq (emoji r) em)
                                                               (\<lambda>r0. r2))
                                                       s
                                            in reaction_dispatch ''reaction_remove'' data r2 s2)))))
                | Inr _ \<Rightarrow> (Some TypeError, s))))"

section \<open>Guild availability and removal\<close>

text \<open>\<^verbatim>\<open>_get_create_guild\<close>: the cached guild is looked up under the record's raw id.\<close>

definition get_create_guild :: "pydict \<Rightarrow> state \<Rightarrow> (error + nat) \<times> state" where
  "get_create_guild data s =
     (if py_eq_bool (py_get data ''unavailable'') False then
        (case get_guild (py_get data ''id'') s of
           Inl e \<Rightarrow> (Inl e, s)
         | Inr (Some r) \<Rightarrow>
             (let s1 = s\<lparr>guild_objs := (guild_objs s)(r := (guild_objs s r)\<lparr>unavailable := False\<rparr>)\<rparr>
              in case Guild_from_data (guild_objs s1 r) data of
                   Inl e \<Rightarrow> (Inl e, s1)
                 | Inr g \<Rightarrow> (Inr r, s1\<lparr>guild_objs := (guild_objs s1)(r := g)\<rparr>))
         | Inr None \<Rightarrow> add_guild_from_data data s)
      else add_guild_from_data data s)"

text \<open>\<^verbatim>\<open>_chunk_and_dispatch\<close>, run without interleaving.\<close>

definition chunk_and_dispatch :: "nat \<Rightarrow> json \<Rightarrow> state \<Rightarrow> state" where
  "chunk_and_dispatch r unavailable_field s =
     (case chunks_needed r (chunker [r] s) of
        (chunks, s1) \<Rightarrow>
          if py_eq_bool unavailable_field False then dispatch ''guild_available'' [AGuild r] s1
          else dispatch ''guild_join'' [AGuild r] s1)"

definition parse_guild_create :: "pydict \<Rightarrow> state \<Rightarrow> error option \<times> state" where
  "parse_guild_create data s =
     (let unavailable_field = py_get data ''unavailable'' in
      if py_eq_bool unavailable_field True then (None, s)
      else
        (case get_create_guild data s of
           (Inl e, s1) \<Rightarrow> (Some e, s1)
         | (Inr r, s1) \<Rightarrow>
             if large (guild_objs s1 r) then
               (if py_eq_bool unavailable_field False then
                  (case ready_state s1 of
                     Some rs \<Rightarrow>
                       (None, s1\<lparr>ready_state :=
                                   Some (rs\<lparr>launch := False,
                                            ready_guilds := ready_guilds rs @ [r]\<rparr>)\<rparr>)
                   | None \<Rightarrow> (None, spawn (ChunkAndDispatch r unavailable_field) s1))
                else (None, spawn (ChunkAndDispatch r unavailable_field) s1))
             else if py_eq_bool unavailable_field False then
               (None, dispatch ''guild_available'' [AGuild r] s1)
             else (None, dispatch ''guild_join'' [AGuild r] s1)))"

text \<open>
  Modelled from the spec: \<^verbatim>\<open>Message.guild\<close> and the comparison of guilds, which
  \<^verbatim>\<open>msg.guild != guild\<close> in \<^verbatim>\<open>parse_guild_delete\<close> uses, are not in \<^verbatim>\<open>state.py\<close>; a
  message belongs to the guild of its channel (to none in a private channel), and a
  guild is identified by its numeric id.
\<close>

definition message_guild :: "message \<Rightarrow> nat option" where
  "message_guild m = (case mchannel m of None \<Rightarrow> None | Some c \<Rightarrow> cguild c)"

definition guild_ne :: "state \<Rightarrow> nat option \<Rightarrow> nat \<Rightarrow> bool" where
  "guild_ne s a r =
     (case a of None \<Rightarrow> True | Some r' \<Rightarrow> gid (guild_objs s r') \<noteq> gid (guild_objs s r))"

definition parse_guild_delete :: "pydict \<Rightarrow> state \<Rightarrow> error option \<times> state" where
  "parse_guild_delete data s =
     (case py_int_item data ''id'' of
        Inl e \<Rightarrow> (Some e, s)
      | Inr k \<Rightarrow>
          (case get_guild (JInt k) s of
             Inl e \<Rightarrow> (Some e, s)
           | Inr None \<Rightarrow> (None, s)
           | Inr (Some r) \<Rightarrow>
               if py_truthy (py_get_default_False data ''unavailable'') then
                 (None, dispatch ''guild_unavailable'' [AGuild r]
                          (s\<lparr>guild_objs := (guild_objs s)
                                              (r := (guild_objs s r)\<lparr>unavailable := True\<rparr>)\<rparr>))
               else
                 (let s1 = s\<lparr>messages :=
                                deque (max_messages s)
                                  (filter (\<lambda>msg. guild_ne s (message_guild msg) r) (messages s))\<rparr>
                  in (None, dispatch ''guild_remove'' [AGuild r] (remove_guild r s1)))))"

section \<open>The registry as the spec words it\<close>

text \<open>
  The contract of \<^verbatim>\<open>resolve\<close> in the spec, over the listeners in registration order: a
  cancelled handle is dropped; otherwise the predicate is evaluated; a failure is
  stored on the handle, which is dropped; on true the handle is fulfilled and dropped,
  and for the chunk class the pass stops there; the survivors keep their order. The
  result is the exception that escaped (if any), the survivors and the futures.
\<close>

fun resolve ::
  "guild option \<Rightarrow> json \<Rightarrow> listener list \<Rightarrow> (nat \<Rightarrow> fstate)
     \<Rightarrow> error option \<times> listener list \<times> (nat \<Rightarrow> fstate)" where
  "resolve argument result [] F = (None, [], F)"
| "resolve argument result (l # ls) F =
     (if F (future l) = Cancelled then resolve argument result ls F
      else
        (case predicate l argument of
           Inl e \<Rightarrow>
             (case set_exception F (future l) e of
                Inl err \<Rightarrow> (Some err, l # ls, F)
              | Inr F' \<Rightarrow> resolve argument result ls F')
         | Inr passed \<Rightarrow>
             if passed then
               (case set_result F (future l) result of
                  Inl err \<Rightarrow> (Some err, l # ls, F)
                | Inr F' \<Rightarrow> (None, ls, F'))
             else
               (case resolve argument result ls F of
                  (eo, kept, F') \<Rightarrow> (eo, l # kept, F'))))"

section \<open>Example records and states\<close>

text \<open>
  Concrete records and states on which the theorems below are instantiated. The
  factory builds a group channel from an entry's id.
\<close>

definition example_factory :: "json \<Rightarrow> error + channel" where
  "example_factory pm =
     (case pm of
        JObj d \<Rightarrow>
          (case py_int_item d ''id'' of
             Inl e \<Rightarrow> Inl e
           | Inr k \<Rightarrow> Inr \<lparr>cid = k, kind = GroupChannel, cguild = None, recipient = None\<rparr>)
      | _ \<Rightarrow> Inl TypeError)"

definition ready_record :: pydict where
  "ready_record =
     [(''user'', JObj [(''id'', JStr ''1''), (''username'', JStr ''me'')]),
      (''guilds'', JList [JObj [(''id'', JStr ''7''), (''large'', JBool True),
                                (''member_count'', JInt 2500)]]),
      (''private_channels'', JList [])]"

definition after_ready :: state where
  "after_ready = snd (parse_ready example_factory ready_record (init None))"

definition large_guild_available :: pydict where
  "large_guild_available =
     [(''id'', JStr ''7''), (''unavailable'', JBool False), (''large'', JBool True),
      (''member_count'', JInt 2500)]"

definition ready_one_large :: state where
  "ready_one_large = snd (parse_guild_create large_guild_available after_ready)"

definition with_message :: state where
  "with_message =
     snd (parse_message_create [(''id'', JStr ''5''), (''channel_id'', JStr ''3'')] after_ready)"

definition guild_one_record :: pydict where
  "guild_one_record = [(''id'', JInt 1), (''large'', JBool True), (''member_count'', JInt 2500)]"

definition guild_one_available :: pydict where
  "guild_one_available =
     [(''id'', JInt 1), (''unavailable'', JBool False), (''large'', JBool True),
      (''member_count'', JInt 2500)]"

definition message_record :: "nat \<Rightarrow> pydict" where
  "message_record i = [(''id'', JInt (int i)), (''channel_id'', JInt 0)]"

definition full_buffer :: state where
  "full_buffer = message_creates (map message_record [1..<101]) (init (Some 0))"

definition guild_one :: guild where
  "guild_one = \<lparr>gid = 1, unavailable = False, large = True, member_count = 2500, channels = []\<rparr>"

definition waiting :: state where
  "waiting =
     (snd (receive_chunk 1 (snd (receive_chunk 1 (snd (receive_chunk 2
        (snd (receive_chunk 1 (init None))))))))) \<lparr>futures := (\<lambda>f. Pending)(0 := Cancelled)\<rparr>"

definition always_raises :: "error \<Rightarrow> guild option \<Rightarrow> error + bool" where
  "always_raises e a = Inl e"

definition raising_first :: state where
  "raising_first =
     (init None)\<lparr>listeners :=
        [\<lparr>ltype = chunk, future = 0, predicate = always_raises (PredicateError 0)\<rparr>,
         \<lparr>ltype = chunk, future = 1, predicate = chunk_predicate 1\<rparr>],
        next_ref := 2\<rparr>"

definition example_guild :: guild where
  "example_guild =
     \<lparr>gid = 7, unavailable = False, large = False, member_count = 2,
      channels = [(3, \<lparr>cid = 3, kind = TextChannel, cguild = Some 0, recipient = None\<rparr>)]\<rparr>"

definition guild_with_messages :: state where
  "guild_with_messages =
     message_creates
       [[(''id'', JInt 5), (''channel_id'', JInt 3)],
        [(''id'', JInt 6), (''channel_id'', JInt 4)],
        [(''id'', JInt 8), (''channel_id'', JStr ''3'')]]
       ((init None)\<lparr>guilds := [(7, 0)], guild_objs := (\<lambda>r. empty_guild)(0 := example_guild),
                    next_ref := 1\<rparr>)"

definition waiting_ready :: state where
  "waiting_ready = snd (receive_chunk 7 ready_one_large)"

definition guild_99 :: guild where
  "guild_99 = \<lparr>gid = 99, unavailable = False, large = False, member_count = 0, channels = []\<rparr>"

section \<open>The registry refines its contract\<close>

lemma ListenerType_eq [simp]: "((x::ListenerType) = y) = True"
  by (cases x; cases y) simp

lemma delete_at_0 [simp]: "delete_at 0 (x # xs) = xs"
  by (simp add: delete_at_def)

lemma delete_at_Suc [simp]: "delete_at (Suc i) (x # xs) = x # delete_at i xs"
  by (simp add: delete_at_def)

lemma foldr_delete_at_Suc: "foldr delete_at (map Suc ks) (x # xs) = x # foldr delete_at ks xs"
  by (induction ks) simp_all

lemma scan_listeners_resolve:
  "\<exists>ks. scan_listeners t a r i ls F rem
          = (fst (resolve a r ls F), snd (snd (resolve a r ls F)), rem @ map (\<lambda>k. i + k) ks)
      \<and> (fst (resolve a r ls F) = None \<longrightarrow> foldr delete_at ks ls = fst (snd (resolve a r ls F)))"
proof (induction ls arbitrary: i F rem)
  case Nil
  show ?case by (rule exI [of _ "[]"]) simp
next
  case (Cons l ls)
  show ?case
  proof (cases "F (future l) = Cancelled")
    case True
    from Cons.IH [of "Suc i" F "rem @ [i]"] obtain ks where
      ks: "scan_listeners t a r (Suc i) ls F (rem @ [i])
          = (fst (resolve a r ls F), snd (snd (resolve a r ls F)), (rem @ [i]) @ map (\<lambda>k. Suc i + k) ks)
        \<and> (fst (resolve a r ls F) = None \<longrightarrow> foldr delete_at ks ls = fst (snd (resolve a r ls F)))"
      ..
    show ?thesis
      by (rule exI [of _ "0 # map Suc ks"]) (use True ks in \<open>simp add: foldr_delete_at_Suc comp_def\<close>)
  next
    case nc: False
    show ?thesis
    proof (cases "predicate l a")
      case (Inl e)
      show ?thesis
      proof (cases "set_exception F (future l) e")
        case err: (Inl err)
        show ?thesis
          by (rule exI [of _ "[]"]) (use nc Inl err in simp)
      next
        case (Inr F')
        from Cons.IH [of "Suc i" F' "rem @ [i]"] obtain ks where
          ks: "scan_listeners t a r (Suc i) ls F' (rem @ [i])
            = (fst (resolve a r ls F'), snd (snd (resolve a r ls F')), (rem @ [i]) @ map (\<lambda>k. Suc i + k) ks)
          \<and> (fst (resolve a r ls F') = None \<longrightarrow> foldr delete_at ks ls = fst (snd (resolve a r ls F')))"
          ..
        show ?thesis
          by (rule exI [of _ "0 # map Suc ks"])
            (use nc Inl Inr ks in \<open>simp add: foldr_delete_at_Suc comp_def\<close>)
      qed
    next
      case (Inr passed)
      show ?thesis
      proof (cases passed)
        case True
        show ?thesis
        proof (cases "set_result F (future l) r")
          case err: (Inl err)
          show ?thesis
            by (rule exI [of _ "[]"]) (use nc Inr True err in simp)
        next
          case F': (Inr F')
          show ?thesis
            by (rule exI [of _ "[0]"]) (use nc Inr True F' in simp)
        qed
      next
        case False
        from Cons.IH [of "Suc i" F rem] obtain ks where
          ks: "scan_listeners t a r (Suc i) ls F rem
            = (fst (resolve a r ls F), snd (snd (resolve a r ls F)), rem @ map (\<lambda>k. Suc i + k) ks)
          \<and> (fst (resolve a r ls F) = None \<longrightarrow> foldr delete_at ks ls = fst (snd (resolve a r ls F)))"
          ..
        show ?thesis
          by (rule exI [of _ "map Suc ks"])
            (use nc Inr False ks in \<open>simp add: foldr_delete_at_Suc comp_def split: prod.splits\<close>)
      qed
    qed
  qed
qed

lemma process_listeners_resolve:
  "process_listeners t a r s =
     (case resolve a r (listeners s) (futures s) of
        (Some e, kept, F) \<Rightarrow> (Some e, s\<lparr>futures := F\<rparr>)
      | (None, kept, F) \<Rightarrow> (None, s\<lparr>listeners := kept, futures := F\<rparr>))"
proof -
  obtain ks where
    ks: "scan_listeners t a r 0 (listeners s) (futures s) []
          = (fst (resolve a r (listeners s) (futures s)),
             snd (snd (resolve a r (listeners s) (futures s))), [] @ map (\<lambda>k. 0 + k) ks)
      \<and> (fst (resolve a r (listeners s) (futures s)) = None \<longrightarrow>
         foldr delete_at ks (listeners s) = fst (snd (resolve a r (listeners s) (futures s))))"
    using scan_listeners_resolve [of t a r 0 "listeners s" "futures s" "[]"] ..
  show ?thesis
    using ks
    by (cases "resolve a r (listeners s) (futures s)")
       (auto simp: process_listeners_def foldr_conv_fold [symmetric] split: option.splits)
qed

lemma resolve_first_match:
  assumes "distinct (map future (pre @ [m]))"
    and "\<forall>l\<in>set pre. F (future l) = Cancelled \<or> (F (future l) = Pending \<and> predicate l a \<noteq> Inr True)"
    and "F (future m) = Pending" and "predicate m a = Inr True"
  shows "\<exists>F'. resolve a r (pre @ m # post) F
            = (None, [l\<leftarrow>pre. F (future l) = Pending \<and> predicate l a = Inr False] @ post, F')
     \<and> F' (future m) = Finished r
     \<and> (\<forall>l\<in>set pre. F' (future l) =
           (if F (future l) = Cancelled then Cancelled
            else case predicate l a of Inl e \<Rightarrow> Failed e | Inr b \<Rightarrow> Pending))
     \<and> (\<forall>f. f \<notin> future ` set (pre @ [m]) \<longrightarrow> F' f = F f)"
  using assms
proof (induction pre arbitrary: F)
  case Nil
  then show ?case by (simp add: set_result_def)
next
  case (Cons l pre)
  have d: "distinct (map future (pre @ [m]))" and
    nl: "future l \<notin> future ` set (pre @ [m])"
    using Cons.prems(1) by auto
  show ?case
  proof (cases "F (future l) = Cancelled")
    case True
    have "\<forall>l\<in>set pre. F (future l) = Cancelled \<or> (F (future l) = Pending \<and> predicate l a \<noteq> Inr True)"
      using Cons.prems(2) by simp
    from Cons.IH [OF d this Cons.prems(3) Cons.prems(4)] obtain F' where
      F': "resolve a r (pre @ m # post) F
            = (None, [l\<leftarrow>pre. F (future l) = Pending \<and> predicate l a = Inr False] @ post, F')
     \<and> F' (future m) = Finished r
     \<and> (\<forall>l\<in>set pre. F' (future l) =
           (if F (future l) = Cancelled then Cancelled
            else case predicate l a of Inl e \<Rightarrow> Failed e | Inr b \<Rightarrow> Pending))
     \<and> (\<forall>f. f \<notin> future ` set (pre @ [m]) \<longrightarrow> F' f = F f)" ..
    show ?thesis
      by (rule exI [of _ F']) (use True F' nl in auto)
  next
    case nc: False
    then have pend: "F (future l) = Pending" and nt: "predicate l a \<noteq> Inr True"
      using Cons.prems(2) by auto
    show ?thesis
    proof (cases "predicate l a")
      case (Inl e)
      let ?F1 = "F(future l := Failed e)"
      have eq: "?F1 (future l') = F (future l')" if "l' \<in> set (pre @ [m])" for l'
      proof -
        have "future l' \<in> future ` set (pre @ [m])" using that by (rule imageI)
        then have "future l' \<noteq> future l" using nl by metis
        then show ?thesis by simp
      qed
      have h2: "\<forall>l\<in>set pre. ?F1 (future l) = Cancelled \<or> (?F1 (future l) = Pending \<and> predicate l a \<noteq> Inr True)"
        using Cons.prems(2) eq by simp
      have h3: "?F1 (future m) = Pending" using Cons.prems(3) eq by simp
      from Cons.IH [OF d h2 h3 Cons.prems(4)] obtain F' where
        F': "resolve a r (pre @ m # post) ?F1
            = (None, [l\<leftarrow>pre. ?F1 (future l) = Pending \<and> predicate l a = Inr False] @ post, F')
     \<and> F' (future m) = Finished r
     \<and> (\<forall>l\<in>set pre. F' (future l) =
           (if ?F1 (future l) = Cancelled then Cancelled
            else case predicate l a of Inl e \<Rightarrow> Failed e | Inr b \<Rightarrow> Pending))
     \<and> (\<forall>f. f \<notin> future ` set (pre @ [m]) \<longrightarrow> F' f = ?F1 f)" ..
      have flt: "[l\<leftarrow>pre. ?F1 (future l) = Pending \<and> predicate l a = Inr False]
               = [l\<leftarrow>pre. F (future l) = Pending \<and> predicate l a = Inr False]"
        by (rule filter_cong) (use eq in auto)
      have res: "resolve a r ((l # pre) @ m # post) F = resolve a r (pre @ m # post) ?F1"
        using nc Inl pend by (simp add: set_exception_def)
      have a1: "F' (future l) = Failed e" using F' nl by simp
      have a2: "\<forall>l'\<in>set pre. F' (future l') =
           (if F (future l') = Cancelled then Cancelled
            else case predicate l' a of Inl e \<Rightarrow> Failed e | Inr b \<Rightarrow> Pending)"
        using F' eq by simp
      have a3: "\<forall>f. f \<notin> future ` set ((l # pre) @ [m]) \<longrightarrow> F' f = F f"
        using F' by simp
      show ?thesis
        by (rule exI [of _ F']) (use res F' flt a1 a2 a3 nc Inl pend in simp)
    next
      case (Inr b)
      then have b: "predicate l a = Inr False" using nt by (cases b) auto
      have "\<forall>l\<in>set pre. F (future l) = Cancelled \<or> (F (future l) = Pending \<and> predicate l a \<noteq> Inr True)"
        using Cons.prems(2) by simp
      from Cons.IH [OF d this Cons.prems(3) Cons.prems(4)] obtain F' where
        F': "resolve a r (pre @ m # post) F
            = (None, [l\<leftarrow>pre. F (future l) = Pending \<and> predicate l a = Inr False] @ post, F')
     \<and> F' (future m) = Finished r
     \<and> (\<forall>l\<in>set pre. F' (future l) =
           (if F (future l) = Cancelled then Cancelled
            else case predicate l a of Inl e \<Rightarrow> Failed e | Inr b \<Rightarrow> Pending))
     \<and> (\<forall>f. f \<notin> future ` set (pre @ [m]) \<longrightarrow> F' f = F f)" ..
      have a1: "F' (future l) = Pending" using F' nl pend by simp
      show ?thesis
        by (rule exI [of _ F']) (use F' b nc pend a1 in simp)
    qed
  qed
qed

lemma resolve_no_match:
  assumes "distinct (map future pre)"
    and "\<forall>l\<in>set pre. F (future l) = Cancelled \<or> (F (future l) = Pending \<and> predicate l a \<noteq> Inr True)"
  shows "\<exists>F'. resolve a r pre F
            = (None, [l\<leftarrow>pre. F (future l) = Pending \<and> predicate l a = Inr False], F')
     \<and> (\<forall>l\<in>set pre. F' (future l) =
           (if F (future l) = Cancelled then Cancelled
            else case predicate l a of Inl e \<Rightarrow> Failed e | Inr b \<Rightarrow> Pending))
     \<and> (\<forall>f. f \<notin> future ` set pre \<longrightarrow> F' f = F f)"
  using assms
proof (induction pre arbitrary: F)
  case Nil
  then show ?case by simp
next
  case (Cons l pre)
  have d: "distinct (map future pre)" and
    nl: "future l \<notin> future ` set pre"
    using Cons.prems(1) by auto
  show ?case
  proof (cases "F (future l) = Cancelled")
    case True
    have "\<forall>l\<in>set pre. F (future l) = Cancelled \<or> (F (future l) = Pending \<and> predicate l a \<noteq> Inr True)"
      using Cons.prems(2) by simp
    from Cons.IH [OF d this] obtain F' where
      F': "resolve a r pre F
            = (None, [l\<leftarrow>pre. F (future l) = Pending \<and> predicate l a = Inr False], F')
     \<and> (\<forall>l\<in>set pre. F' (future l) =
           (if F (future l) = Cancelled then Cancelled
            else case predicate l a of Inl e \<Rightarrow> Failed e | Inr b \<Rightarrow> Pending))
     \<and> (\<forall>f. f \<notin> future ` set pre \<longrightarrow> F' f = F f)" ..
    show ?thesis
      by (rule exI [of _ F']) (use True F' nl in auto)
  next
    case nc: False
    then have pend: "F (future l) = Pending" and nt: "predicate l a \<noteq> Inr True"
      using Cons.prems(2) by auto
    show ?thesis
    proof (cases "predicate l a")
      case (Inl e)
      let ?F1 = "F(future l := Failed e)"
      have eq: "?F1 (future l') = F (future l')" if "l' \<in> set pre" for l'
      proof -
        have "future l' \<in> future ` set pre" using that by (rule imageI)
        then have "future l' \<noteq> future l" using nl by metis
        then show ?thesis by simp
      qed
      have h2: "\<forall>l\<in>set pre. ?F1 (future l) = Cancelled \<or> (?F1 (future l) = Pending \<and> predicate l a \<noteq> Inr True)"
        using Cons.prems(2) eq by simp
      from Cons.IH [OF d h2] obtain F' where
        F': "resolve a r pre ?F1
            = (None, [l\<leftarrow>pre. ?F1 (future l) = Pending \<and> predicate l a = Inr False], F')
     \<and> (\<forall>l\<in>set pre. F' (future l) =
           (if ?F1 (future l) = Cancelled then Cancelled
            else case predicate l a of Inl e \<Rightarrow> Failed e | Inr b \<Rightarrow> Pending))
     \<and> (\<forall>f. f \<notin> future ` set pre \<longrightarrow> F' f = ?F1 f)" ..
      have flt: "[l\<leftarrow>pre. ?F1 (future l) = Pending \<and> predicate l a = Inr False]
               = [l\<leftarrow>pre. F (future l) = Pending \<and> predicate l a = Inr False]"
        by (rule filter_cong) (use eq in auto)
      have res: "resolve a r (l # pre) F = resolve a r pre ?F1"
        using nc Inl pend by (simp add: set_exception_def)
      have a1: "F' (future l) = Failed e" using F' nl by simp
      have a2: "\<forall>l'\<in>set pre. F' (future l') =
           (if F (future l') = Cancelled then Cancelled
            else case predicate l' a of Inl e \<Rightarrow> Failed e | Inr b \<Rightarrow> Pending)"
        using F' eq by simp
      have a3: "\<forall>f. f \<notin> future ` set (l # pre) \<longrightarrow> F' f = F f"
        using F' by simp
      show ?thesis
        by (rule exI [of _ F']) (use res F' flt a1 a2 a3 nc Inl pend in simp)
    next
      case (Inr b)
      then have b: "predicate l a = Inr False" using nt by (cases b) auto
      have "\<forall>l\<in>set pre. F (future l) = Cancelled \<or> (F (future l) = Pending \<and> predicate l a \<noteq> Inr True)"
        using Cons.prems(2) by simp
      from Cons.IH [OF d this] obtain F' where
        F': "resolve a r pre F
            = (None, [l\<leftarrow>pre. F (future l) = Pending \<and> predicate l a = Inr False], F')
     \<and> (\<forall>l\<in>set pre. F' (future l) =
           (if F (future l) = Cancelled then Cancelled
            else case predicate l a of Inl e \<Rightarrow> Failed e | Inr b \<Rightarrow> Pending))
     \<and> (\<forall>f. f \<notin> future ` set pre \<longrightarrow> F' f = F f)" ..
      have a1: "F' (future l) = Pending" using F' nl pend by simp
      show ?thesis
        by (rule exI [of _ F']) (use F' b nc pend a1 in simp)
    qed
  qed
qed

section \<open>Evaluating the examples\<close>

lemma int_of_str_simps:
  "int_of_str ''1'' = Some 1" "int_of_str ''7'' = Some 7" "int_of_str ''5'' = Some 5"
  "int_of_str ''3'' = Some 3"
  by (simp_all add: int_of_str_def is_digit_def)

lemma after_ready_eq:
  "after_ready =
    \<lparr>max_messages = 5000, is_bot = None, listeners = [],
     user = Some \<lparr>uref = 0, uid = 1, udata = [(''id'', JStr ''1''), (''username'', JStr ''me'')]\<rparr>,
     sequence = None, session_id = None, calls = [],
     users = [(1, \<lparr>uref = 0, uid = 1, udata = [(''id'', JStr ''1''), (''username'', JStr ''me'')]\<rparr>)],
     guilds = [], voice_clients = [], private_channels = [], private_channels_by_user = [],
     messages = [], ready_state = Some \<lparr>launch = False, ready_guilds = []\<rparr>,
     guild_objs = (\<lambda>r. empty_guild), futures = (\<lambda>f. Pending), next_ref = 1,
     dispatched = [], chunker_calls = [], syncer_calls = [], tasks = [DelayReady]\<rparr>"
  by (simp add: after_ready_def parse_ready_def ready_record_def init_def clear_def py_item_def
      py_get_def try_insert_user_def py_int_item_def int_of_str_simps User_def spawn_def Let_def)

lemma ready_one_large_eq:
  "ready_one_large =
    after_ready\<lparr>guild_objs := (\<lambda>r. empty_guild)
                (1 := \<lparr>gid = 7, unavailable = False, large = True, member_count = 2500, channels = []\<rparr>),
        next_ref := 2, guilds := [(7, 1)],
        ready_state := Some \<lparr>launch = False, ready_guilds = [1]\<rparr>\<rparr>"
  by (simp add: ready_one_large_def after_ready_eq parse_guild_create_def large_guild_available_def
      get_create_guild_def get_guild_def py_get_def add_guild_from_data_def Guild_from_data_def
      py_int_item_def py_item_def int_of_str_simps add_guild_def empty_guild_def Let_def)

lemma with_message_eq:
  "with_message =
    after_ready\<lparr>dispatched := [(''message'', [AMessage \<lparr>mid = 5, mchannel = None, reactions = []\<rparr>])],
        messages := [\<lparr>mid = 5, mchannel = None, reactions = []\<rparr>]\<rparr>"
  by (simp add: with_message_def after_ready_eq parse_message_create_def get_channel_def
      py_int_item_def py_item_def int_of_str_simps Message_def dispatch_def deque_append_def deque_def
      Let_def)

lemma waiting_eq:
  "waiting = (init None)\<lparr>listeners :=
        [\<lparr>ltype = chunk, future = 0, predicate = chunk_predicate 1\<rparr>,
         \<lparr>ltype = chunk, future = 1, predicate = chunk_predicate 2\<rparr>,
         \<lparr>ltype = chunk, future = 2, predicate = chunk_predicate 1\<rparr>,
         \<lparr>ltype = chunk, future = 3, predicate = chunk_predicate 1\<rparr>],
      next_ref := 4, futures := (\<lambda>f. Pending)(0 := Cancelled)\<rparr>"
  by (simp add: waiting_def receive_chunk_def init_def clear_def Let_def)

lemma waiting_ready_eq:
  "waiting_ready = ready_one_large
     \<lparr>listeners := [\<lparr>ltype = chunk, future = 2, predicate = chunk_predicate 7\<rparr>],
      futures := (\<lambda>f. Pending), next_ref := 3\<rparr>"
  by (simp add: waiting_ready_def receive_chunk_def ready_one_large_eq after_ready_eq Let_def
      fun_upd_idem_iff)

lemma guild_with_messages_eq:
  "guild_with_messages =
     (init None)\<lparr>guilds := [(7, 0)], guild_objs := (\<lambda>r. empty_guild)(0 := example_guild),
        next_ref := 1,
        dispatched :=
          [(''message'', [AMessage \<lparr>mid = 5, mchannel = Some \<lparr>cid = 3, kind = TextChannel, cguild = Some 0, recipient = None\<rparr>, reactions = []\<rparr>]),
           (''message'', [AMessage \<lparr>mid = 6, mchannel = None, reactions = []\<rparr>]),
           (''message'', [AMessage \<lparr>mid = 8, mchannel = Some \<lparr>cid = 3, kind = TextChannel, cguild = Some 0, recipient = None\<rparr>, reactions = []\<rparr>])],
        messages :=
          [\<lparr>mid = 5, mchannel = Some \<lparr>cid = 3, kind = TextChannel, cguild = Some 0, recipient = None\<rparr>, reactions = []\<rparr>,
           \<lparr>mid = 6, mchannel = None, reactions = []\<rparr>,
           \<lparr>mid = 8, mchannel = Some \<lparr>cid = 3, kind = TextChannel, cguild = Some 0, recipient = None\<rparr>, reactions = []\<rparr>]\<rparr>"
  by (simp add: guild_with_messages_def parse_message_create_def get_channel_def
      py_int_item_def py_item_def int_of_str_simps Message_def dispatch_def deque_append_def deque_def
      init_def clear_def example_guild_def Let_def)

section \<open>The message buffer\<close>

lemma deque_deque_append: "deque n (deque n xs @ ys) = deque n (xs @ ys)"
proof (cases "length xs \<le> n")
  case True
  then show ?thesis by (simp add: deque_def)
next
  case False
  define k where "k = length xs - n"
  have len: "length xs = k + n" using False by (simp add: k_def)
  have l: "deque n (deque n xs @ ys) = drop (length ys) (drop k xs @ ys)"
    by (simp add: deque_def len)
  have "deque n (xs @ ys) = drop (length ys + k) (xs @ ys)"
    by (simp add: deque_def len add.commute)
  also have "\<dots> = drop (length ys) (drop k (xs @ ys))"
    by (simp only: drop_drop)
  also have "drop k (xs @ ys) = drop k xs @ ys"
    by (simp add: len)
  finally show ?thesis using l by simp
qed

lemma length_deque: "length (deque n xs) \<le> n"
  by (simp add: deque_def)

lemma deque_short: "length xs \<le> n \<Longrightarrow> deque n xs = xs"
  by (simp add: deque_def)

lemma snd_parse_message_create:
  "snd (parse_message_create data s) =
     (case new_message s data of
        None \<Rightarrow> s
      | Some m \<Rightarrow> s\<lparr>dispatched := dispatched s @ [(''message'', [AMessage m])],
                    messages := deque_append (max_messages s) (messages s) m\<rparr>)"
  by (simp add: parse_message_create_def new_message_def dispatch_def Let_def split: sum.splits)

lemma fst_parse_message_create:
  "(fst (parse_message_create data s) = None) = (new_message s data \<noteq> None)"
  by (simp add: parse_message_create_def new_message_def dispatch_def Let_def split: sum.splits)

lemma get_channel_frame:
  "get_channel c (s\<lparr>dispatched := d, messages := ms\<rparr>) = get_channel c s"
  by (simp add: get_channel_def split: sum.splits option.splits)

lemma new_message_frame:
  "new_message (s\<lparr>dispatched := d, messages := ms\<rparr>) = new_message s"
  by (rule ext) (simp add: new_message_def get_channel_frame cong: sum.case_cong)

lemma created_frame: "created (snd (parse_message_create data s)) = created s"
  by (rule ext) (simp add: created_def snd_parse_message_create new_message_frame split: option.splits)

lemma max_messages_parse_message_create:
  "max_messages (snd (parse_message_create data s)) = max_messages s"
  by (simp add: snd_parse_message_create split: option.splits)

lemma created_Cons:
  "created s (data # rest) =
     (case new_message s data of None \<Rightarrow> created s rest | Some m \<Rightarrow> m # created s rest)"
  by (simp add: created_def map_filter_simps split: option.splits)

lemma message_creates_messages:
  "length (messages s) \<le> max_messages s \<Longrightarrow>
   max_messages (message_creates records s) = max_messages s
   \<and> messages (message_creates records s) = deque (max_messages s) (messages s @ created s records)"
proof (induction records arbitrary: s)
  case Nil
  then show ?case by (simp add: created_def map_filter_simps deque_short)
next
  case (Cons data rest)
  let ?s1 = "snd (parse_message_create data s)"
  have b: "length (messages ?s1) \<le> max_messages ?s1"
    using Cons.prems
    by (simp add: snd_parse_message_create deque_append_def length_deque split: option.splits)
  have m1: "messages ?s1 = deque (max_messages s)
              (messages s @ (case new_message s data of None \<Rightarrow> [] | Some m \<Rightarrow> [m]))"
    using Cons.prems
    by (simp add: snd_parse_message_create deque_append_def deque_short split: option.splits)
  from Cons.IH [OF b] have
    "max_messages (message_creates rest ?s1) = max_messages s"
    "messages (message_creates rest ?s1)
       = deque (max_messages s) (messages ?s1 @ created s rest)"
    by (simp_all add: max_messages_parse_message_create created_frame)
  then show ?case
    by (simp add: m1 deque_deque_append created_Cons split: option.splits)
qed

lemma created_map:
  "(\<And>x. new_message s (f x) = Some (g x)) \<Longrightarrow> created s (map f xs) = map g xs"
  by (induction xs) (simp_all add: created_def map_filter_simps)

lemma new_message_record:
  "new_message (init requested) (message_record i)
     = Some \<lparr>mid = int i, mchannel = None, reactions = []\<rparr>"
  by (simp add: new_message_def message_record_def py_int_item_def py_item_def get_channel_def
      init_def clear_def Message_def)

lemma new_message_creates: "new_message (message_creates records s) = new_message s"
proof (induction records arbitrary: s)
  case Nil
  show ?case by simp
next
  case (Cons data rest)
  have "new_message (snd (parse_message_create data s)) = new_message s"
    by (simp add: snd_parse_message_create new_message_frame split: option.splits)
  then show ?case by (simp add: Cons.IH)
qed

section \<open>Guild records\<close>

lemma update_absent: "map_of xs k = None \<Longrightarrow> AList.update k v xs = xs @ [(k, v)]"
  by (induction xs) (auto split: if_splits)

lemma wait_launch_eq: "wait_launch rs = rs\<lparr>launch := True\<rparr>"
  by (induction rs rule: wait_launch.induct) (subst wait_launch.simps, simp)

lemma receive_chunks_frame:
  "dispatched (snd (receive_chunks n r s)) = dispatched s"
proof (induction n arbitrary: s)
  case 0
  show ?case by simp
next
  case (Suc n)
  obtain f s1 where r1: "receive_chunk (gid (guild_objs s r)) s = (f, s1)"
    by (cases "receive_chunk (gid (guild_objs s r)) s")
  then have d1: "dispatched s1 = dispatched s"
    by (auto simp: receive_chunk_def Let_def)
  obtain fs s2 where r2: "receive_chunks n r s1 = (fs, s2)"
    by (cases "receive_chunks n r s1")
  then have "dispatched s2 = dispatched s1"
    using Suc.IH [of s1] by simp
  then show ?case using r1 r2 d1 by simp
qed

lemma chunk_and_dispatch_available:
  "dispatched (chunk_and_dispatch r (JBool False) s)
     = dispatched s @ [(''guild_available'', [AGuild r])]"
proof -
  have "dispatched (snd (chunks_needed r (chunker [r] s))) = dispatched s"
    by (simp add: chunks_needed_def receive_chunks_frame chunker_def)
  then show ?thesis
    by (cases "chunks_needed r (chunker [r] s)") (simp add: chunk_and_dispatch_def dispatch_def)
qed

lemma no_entry: "k \<notin> fst ` set xs \<Longrightarrow> filter (\<lambda>kr. fst kr = k) xs = []"
  by (induction xs) auto

lemma one_entry:
  "distinct (map fst xs) \<Longrightarrow> length (filter (\<lambda>kr. fst kr = k) (AList.update k v xs)) = Suc 0"
proof (induction xs)
  case Nil
  then show ?case by simp
next
  case (Cons x xs)
  have "filter (\<lambda>kr. fst kr = k) xs = []" if "fst x = k"
    using Cons.prems that by (intro no_entry) simp
  then show ?case using Cons by auto
qed

lemma guild_create_absent:
  assumes "map_of d ''unavailable'' = None" and "map_of d ''id'' = Some (JInt k)"
  shows "fst (parse_guild_create d s) = None
     \<and> guilds (snd (parse_guild_create d s)) = AList.update k (next_ref s) (guilds s)
     \<and> next_ref (snd (parse_guild_create d s)) = Suc (next_ref s)
     \<and> gid (guild_objs (snd (parse_guild_create d s)) (next_ref s)) = k"
  using assms
  by (simp add: parse_guild_create_def get_create_guild_def py_get_def add_guild_from_data_def
      Guild_from_data_def py_int_item_def py_item_def add_guild_def spawn_def dispatch_def Let_def)

lemma guild_create_available_cached:
  assumes u: "map_of d ''unavailable'' = Some (JBool False)"
    and i: "map_of d ''id'' = Some (JInt k)"
    and c: "map_of (guilds t) k = Some r"
  shows "fst (parse_guild_create d t) = None
     \<and> guilds (snd (parse_guild_create d t)) = guilds t
     \<and> next_ref (snd (parse_guild_create d t)) = next_ref t
     \<and> Guild_from_data ((guild_objs t r)\<lparr>unavailable := False\<rparr>) d
         = Inr (guild_objs (snd (parse_guild_create d t)) r)
     \<and> unavailable (guild_objs (snd (parse_guild_create d t)) r) = False
     \<and> gid (guild_objs (snd (parse_guild_create d t)) r) = k
     \<and> (\<not> large (guild_objs (snd (parse_guild_create d t)) r) \<longrightarrow>
          dispatched (snd (parse_guild_create d t))
            = dispatched t @ [(''guild_available'', [AGuild r])])
     \<and> (large (guild_objs (snd (parse_guild_create d t)) r) \<longrightarrow>
          dispatched (snd (parse_guild_create d t)) = dispatched t
          \<and> (case ready_state t of
               Some rs \<Rightarrow>
                 ready_state (snd (parse_guild_create d t))
                   = Some (rs\<lparr>launch := False, ready_guilds := ready_guilds rs @ [r]\<rparr>)
                 \<and> tasks (snd (parse_guild_create d t)) = tasks t
             | None \<Rightarrow>
                 tasks (snd (parse_guild_create d t)) = tasks t @ [ChunkAndDispatch r (JBool False)]))"
proof -
  obtain g where g: "Guild_from_data ((guild_objs t r)\<lparr>unavailable := False\<rparr>) d = Inr g"
    and gk: "gid g = k" and gu: "unavailable g = False"
    using u i by (simp add: Guild_from_data_def py_int_item_def py_item_def py_get_def)
  have gc: "get_create_guild d t = (Inr r, t\<lparr>guild_objs := (guild_objs t)(r := g)\<rparr>)"
    using u i c g by (simp add: get_create_guild_def get_guild_def py_get_def Let_def)
  have pu: "py_get d ''unavailable'' = JBool False"
    using u by (simp add: py_get_def)
  show ?thesis
  proof (cases "large g")
    case False
    then show ?thesis
      using g gk gu by (simp add: parse_guild_create_def gc pu dispatch_def Let_def)
  next
    case True
    then show ?thesis
      using g gk gu
      by (cases "ready_state t") (simp_all add: parse_guild_create_def gc pu spawn_def Let_def)
  qed
qed

section \<open>The guild map under a ready record\<close>

text \<open>Whatever the record holds, \<^verbatim>\<open>parse_ready\<close> leaves the guild map as it was.\<close>

lemma private_channel_loop_guilds:
  "guilds (snd (private_channel_loop factory pms s)) = guilds s"
proof (induction pms arbitrary: s)
  case Nil
  show ?case by simp
next
  case (Cons pm pms)
  show ?case
  proof (cases "factory pm")
    case (Inl e)
    then show ?thesis by simp
  next
    case (Inr ch)
    obtain eo s1 where a: "add_private_channel ch s = (eo, s1)"
      by (cases "add_private_channel ch s")
    then have g: "guilds s1 = guilds s"
      by (auto simp: add_private_channel_def Let_def split: if_splits option.splits)
    show ?thesis
      using Inr a g Cons.IH [of s1] by (cases eo) simp_all
  qed
qed

lemma try_insert_user_guilds: "guilds (snd (try_insert_user data s)) = guilds s"
  by (simp add: try_insert_user_def Let_def split: sum.splits option.splits)

lemma parse_ready_guilds_unchanged:
  "guilds (snd (parse_ready factory data s)) = guilds s"
proof -
  let ?s1 = "s\<lparr>ready_state := Some \<lparr>launch = False, ready_guilds = []\<rparr>\<rparr>"
  show ?thesis
  proof (cases "py_item data ''user''")
    case (Inl e)
    then show ?thesis by (simp add: parse_ready_def)
  next
    case (Inr v)
    show ?thesis
    proof (cases v)
      case (JObj user_data)
      obtain res s2 where t: "try_insert_user user_data ?s1 = (res, s2)"
        by (cases "try_insert_user user_data ?s1")
      have g2: "guilds s2 = guilds s"
        using try_insert_user_guilds [of user_data ?s1] t by simp
      have rs2: "ready_state s2 = Some \<lparr>launch = False, ready_guilds = []\<rparr>"
        using t by (auto simp: try_insert_user_def Let_def split: sum.splits option.splits)
      show ?thesis
      proof (cases res)
        case (Inl e)
        then show ?thesis using Inr JObj t g2 by (simp add: parse_ready_def)
      next
        case u: (Inr u)
        show ?thesis
        proof (cases "py_iter (py_get data ''private_channels'')")
          case (Inl e)
          then show ?thesis using Inr JObj t g2 rs2 u by (simp add: parse_ready_def Let_def)
        next
          case pms: (Inr pms)
          obtain eo s5 where l: "private_channel_loop factory pms (s2\<lparr>user := Some u\<rparr>) = (eo, s5)"
            by (cases "private_channel_loop factory pms (s2\<lparr>user := Some u\<rparr>)")
          have "guilds s5 = guilds s"
            using private_channel_loop_guilds [of factory pms "s2\<lparr>user := Some u\<rparr>"] l g2 by simp
          then show ?thesis
            using Inr JObj t rs2 u pms l
            by (cases eo) (simp_all add: parse_ready_def Let_def spawn_def)
        qed
      qed
    qed (use Inr in \<open>simp_all add: parse_ready_def\<close>)
  qed
qed

section \<open>Reaction rows for a unicode emoji\<close>

text \<open>
  When the message is found under the raw message id and the emoji is a unicode emoji
  (falsy id), the handlers keep one row per emoji: an add appends a row with count 1 or
  increments the row's count; a remove without a row changes nothing and returns, with
  a row it decrements the count and drops the row at zero. The rows are changed before
  the channel and the member are looked up, so they stay changed when that lookup raises.
\<close>

lemma find_update_first:
  "find P xs = Some x \<Longrightarrow> P (f x) \<Longrightarrow> find P (update_first P f xs) = Some (f x)"
  by (induction xs) (auto split: if_splits)

lemma get_message_on_reactions:
  "get_message msg_id s = Some msg \<Longrightarrow>
   get_message msg_id (on_reactions msg_id change s) = Some (msg\<lparr>reactions := change (reactions msg)\<rparr>)"
proof -
  assume a: "get_message msg_id s = Some msg"
  then have p: "py_eq_int (mid msg) msg_id"
    unfolding get_message_def by (metis (mono_tags, lifting) find_Some_iff)
  show ?thesis
    using a p
    by (simp add: get_message_def on_reactions_def find_update_first)
qed

lemma reaction_dispatch_messages:
  "messages (snd (reaction_dispatch name data r s)) = messages s"
  by (simp add: reaction_dispatch_def dispatch_def split: sum.splits)

lemma reaction_dispatch_get_message:
  "get_message msg_id (snd (reaction_dispatch name data r s)) = get_message msg_id s"
  by (simp add: get_message_def reaction_dispatch_messages)

lemma reaction_add_rows:
  assumes m: "map_of data ''message_id'' = Some msg_id"
    and found: "get_message msg_id s = Some msg"
    and e: "map_of data ''emoji'' = Some (JObj emoji_data)"
    and eid: "map_of emoji_data ''id'' = Some emoji_id" "\<not> py_truthy emoji_id"
    and en: "map_of emoji_data ''name'' = Some em"
    and uid: "map_of data ''user_id'' = Some user_id"
    and u: "user s = Some u"
    and kw: "map_of data ''message'' = None" "map_of data ''me'' = None"
  shows "get_message msg_id (snd (parse_message_reaction_add data s)) =
     Some (msg\<lparr>reactions :=
       (case get_reaction em (reactions msg) of
          None \<Rightarrow> reactions msg @ [\<lparr>emoji = em, count = 1, me = py_eq_int (uid u) user_id\<rparr>]
        | Some r0 \<Rightarrow>
            update_first (\<lambda>r. py_eq (emoji r) em)
              (\<lambda>r'. r0\<lparr>count := count r0 + 1,
                        me := (if py_eq_int (uid u) user_id then True else me r0)\<rparr>)
              (reactions msg))\<rparr>)"
proof -
  have d: "map_of (AList.delete ''emoji'' data) ''user_id'' = Some user_id"
    "map_of (AList.delete ''emoji'' data) ''message'' = None"
    "map_of (AList.delete ''emoji'' data) ''me'' = None"
    using uid kw by (simp_all add: delete_conv')
  show ?thesis
    using m found e eid en u d
    by (cases "get_reaction em (reactions msg)")
       (simp_all add: parse_message_reaction_add_def py_item_def get_reaction_emoji_def Reaction_def
          Let_def reaction_dispatch_get_message get_message_on_reactions)
qed

lemma reaction_remove_rows:
  assumes m: "map_of data ''message_id'' = Some msg_id"
    and found: "get_message msg_id s = Some msg"
    and e: "map_of data ''emoji'' = Some (JObj emoji_data)"
    and eid: "map_of emoji_data ''id'' = Some emoji_id" "\<not> py_truthy emoji_id"
    and en: "map_of emoji_data ''name'' = Some em"
    and uid: "map_of data ''user_id'' = Some user_id"
    and u: "user s = Some u"
  shows "get_message msg_id (snd (parse_message_reaction_remove data s)) =
     Some (msg\<lparr>reactions :=
       (case get_reaction em (reactions msg) of
          None \<Rightarrow> reactions msg
        | Some r0 \<Rightarrow>
            if count r0 - 1 = 0 then remove_first (\<lambda>r. py_eq (emoji r) em) (reactions msg)
            else update_first (\<lambda>r. py_eq (emoji r) em)
                   (\<lambda>r'. r0\<lparr>count := count r0 - 1,
                             me := (if py_eq_int (uid u) user_id then False else me r0)\<rparr>)
                   (reactions msg))\<rparr>)"
    and "get_reaction em (reactions msg) = None \<Longrightarrow>
           parse_message_reaction_remove data s = (None, s)"
proof -
  have on_u: "user (on_reactions msg_id c s) = user s" for c
    by (simp add: on_reactions_def)
  show "get_message msg_id (snd (parse_message_reaction_remove data s)) =
     Some (msg\<lparr>reactions :=
       (case get_reaction em (reactions msg) of
          None \<Rightarrow> reactions msg
        | Some r0 \<Rightarrow>
            if count r0 - 1 = 0 then remove_first (\<lambda>r. py_eq (emoji r) em) (reactions msg)
            else update_first (\<lambda>r. py_eq (emoji r) em)
                   (\<lambda>r'. r0\<lparr>count := count r0 - 1,
                             me := (if py_eq_int (uid u) user_id then False else me r0)\<rparr>)
                   (reactions msg))\<rparr>)"
    using m found e eid en u uid
    by (cases "get_reaction em (reactions msg)")
       (auto simp: parse_message_reaction_remove_def py_item_def get_reaction_emoji_def
          Let_def reaction_dispatch_get_message get_message_on_reactions on_u)
  show "parse_message_reaction_remove data s = (None, s)"
    if "get_reaction em (reactions msg) = None"
    using m found e eid en that
    by (simp add: parse_message_reaction_remove_def py_item_def get_reaction_emoji_def)
qed

section \<open>Properties of the engine\<close>

text \<open>
  C1. Readiness with one pending guild of 2500 members: \<^verbatim>\<open>_delay_ready\<close> registers
  exactly \<open>ceil(2500 / 1000) = 3\<close> chunk listeners, for that guild's id and on fresh
  futures, before it goes on; it sends one chunk request for the batch, completes
  without raising, discards the ReadyState and dispatches \<^verbatim>\<open>ready\<close> exactly once.
\<close>

theorem delay_ready_one_large_guild:
  assumes rs: "ready_state s = Some rs" and g: "ready_guilds rs = [r]"
    and mc: "member_count (guild_objs s r) = 2500"
  shows "fst (delay_ready_chunks s) = Inr [next_ref s, next_ref s + 1, next_ref s + 2]
     \<and> listeners (snd (delay_ready_chunks s)) = listeners s @
         [\<lparr>ltype = chunk, future = next_ref s, predicate = chunk_predicate (gid (guild_objs s r))\<rparr>,
          \<lparr>ltype = chunk, future = next_ref s + 1, predicate = chunk_predicate (gid (guild_objs s r))\<rparr>,
          \<lparr>ltype = chunk, future = next_ref s + 2, predicate = chunk_predicate (gid (guild_objs s r))\<rparr>]
     \<and> chunker_calls (snd (delay_ready_chunks s)) = chunker_calls s @ [[r]]
     \<and> dispatched (snd (delay_ready_chunks s)) = dispatched s
     \<and> fst (delay_ready s) = None
     \<and> listeners (snd (delay_ready s)) = listeners (snd (delay_ready_chunks s))
     \<and> ready_state (snd (delay_ready s)) = None
     \<and> dispatched (snd (delay_ready s)) = dispatched s @ [(''ready'', [])]"
proof -
  have n: "nat (py_ceil_div 2500 1000) = Suc (Suc (Suc 0))"
    by (simp add: py_ceil_div_def)
  have sp: "splits [r] = [[r]]"
    by (simp add: splits_def)
  have c: "delay_ready_chunks s = (Inr [next_ref s, next_ref s + 1, next_ref s + 2],
      s\<lparr>ready_state := Some (rs\<lparr>launch := True\<rparr>),
        listeners := listeners s @
         [\<lparr>ltype = chunk, future = next_ref s, predicate = chunk_predicate (gid (guild_objs s r))\<rparr>,
          \<lparr>ltype = chunk, future = next_ref s + 1, predicate = chunk_predicate (gid (guild_objs s r))\<rparr>,
          \<lparr>ltype = chunk, future = next_ref s + 2, predicate = chunk_predicate (gid (guild_objs s r))\<rparr>],
        futures := (futures s)(next_ref s := Pending, next_ref s + 1 := Pending, next_ref s + 2 := Pending),
        next_ref := next_ref s + 3,
        chunker_calls := chunker_calls s @ [[r]]\<rparr>)"
    using rs g mc
    by (simp add: delay_ready_chunks_def wait_launch_eq chunks_needed_def n sp receive_chunk_def
          chunker_def Let_def del: wait_launch.simps)
  show ?thesis
    by (simp add: c delay_ready_def delay_ready_finish_def dispatch_def syncer_def Let_def)
qed

theorem delay_ready_one_large_guild_witness:
  "ready_state ready_one_large = Some \<lparr>launch = False, ready_guilds = [1]\<rparr>
   \<and> member_count (guild_objs ready_one_large 1) = 2500
   \<and> fst (delay_ready_chunks ready_one_large) = Inr [2, 3, 4]
   \<and> map future (listeners (snd (delay_ready_chunks ready_one_large))) = [2, 3, 4]
   \<and> chunker_calls (snd (delay_ready_chunks ready_one_large)) = [[1]]
   \<and> dispatched (snd (delay_ready ready_one_large)) = [(''ready'', [])]"
proof -
  have h1: "ready_state ready_one_large = Some \<lparr>launch = False, ready_guilds = [1]\<rparr>"
    by (simp add: ready_one_large_eq)
  have h2: "ready_guilds \<lparr>launch = False, ready_guilds = [1]\<rparr> = [1]" by simp
  have h3: "member_count (guild_objs ready_one_large 1) = 2500"
    by (simp add: ready_one_large_eq)
  show ?thesis
    using delay_ready_one_large_guild [OF h1 h2 h3] h1 h3
    by (simp add: ready_one_large_eq after_ready_eq)
qed

text \<open>
  C2, as amended. Two guild-create records with the same integer id, the first without
  \<^verbatim>\<open>unavailable\<close>, the second with \<^verbatim>\<open>unavailable = false\<close>: the second finds the guild
  object the first cached, merges the record into that object (no guild is
  constructed, the map keeps its single entry for the id, \<^verbatim>\<open>unavailable\<close> is false). If
  the merged guild is not large, \<^verbatim>\<open>guild_available\<close> is dispatched by the second call. If
  it is large, the call dispatches nothing: during the readiness phase the guild joins
  the pending list and the launch event is cleared; otherwise a chunk-and-dispatch task is
  spawned, which dispatches \<^verbatim>\<open>guild_available\<close> when it runs.
\<close>

theorem guild_create_reavailable:
  assumes a1: "map_of d1 ''unavailable'' = None"
    and i1: "map_of d1 ''id'' = Some (JInt k)"
    and u2: "map_of d2 ''unavailable'' = Some (JBool False)"
    and i2: "map_of d2 ''id'' = Some (JInt k)"
    and dist: "distinct (map fst (guilds s))"
  defines "s1 \<equiv> snd (parse_guild_create d1 s)"
  defines "s2 \<equiv> snd (parse_guild_create d2 s1)"
  defines "r \<equiv> next_ref s"
  shows "fst (parse_guild_create d1 s) = None \<and> fst (parse_guild_create d2 s1) = None
     \<and> map_of (guilds s1) k = Some r
     \<and> guilds s2 = guilds s1
     \<and> length (filter (\<lambda>kr. fst kr = k) (guilds s2)) = 1
     \<and> next_ref s2 = next_ref s1
     \<and> Guild_from_data ((guild_objs s1 r)\<lparr>unavailable := False\<rparr>) d2 = Inr (guild_objs s2 r)
     \<and> unavailable (guild_objs s2 r) = False
     \<and> gid (guild_objs s2 r) = k
     \<and> (\<not> large (guild_objs s2 r) \<longrightarrow>
          dispatched s2 = dispatched s1 @ [(''guild_available'', [AGuild r])])
     \<and> (large (guild_objs s2 r) \<longrightarrow>
          dispatched s2 = dispatched s1
          \<and> (case ready_state s1 of
               Some rs \<Rightarrow>
                 ready_state s2 = Some (rs\<lparr>launch := False, ready_guilds := ready_guilds rs @ [r]\<rparr>)
                 \<and> tasks s2 = tasks s1
             | None \<Rightarrow>
                 tasks s2 = tasks s1 @ [ChunkAndDispatch r (JBool False)]
                 \<and> dispatched (chunk_and_dispatch r (JBool False) s2)
                     = dispatched s2 @ [(''guild_available'', [AGuild r])]))"
proof -
  note f = guild_create_absent [OF a1 i1, of s]
  have c: "map_of (guilds s1) k = Some r"
    using f by (simp add: s1_def r_def update_conv')
  note g = guild_create_available_cached [OF u2 i2 c]
  have one: "length (filter (\<lambda>kr. fst kr = k) (guilds s2)) = 1"
    using f g dist by (simp add: s1_def s2_def one_entry)
  show ?thesis
    using f g c one
    by (simp add: s1_def s2_def chunk_and_dispatch_available split: option.splits)
qed

theorem guild_create_reavailable_witness:
  "(map_of [(''id'', JInt 1)] ''unavailable'' = None
   \<and> map_of [(''id'', JInt 1)] ''id'' = Some (JInt 1)
   \<and> map_of [(''id'', JInt 1), (''unavailable'', JBool False)] ''unavailable'' = Some (JBool False)
   \<and> map_of [(''id'', JInt 1), (''unavailable'', JBool False)] ''id'' = Some (JInt 1)
   \<and> distinct (map fst (guilds (init None)))
   \<and> guilds (snd (parse_guild_create [(''id'', JInt 1), (''unavailable'', JBool False)]
               (snd (parse_guild_create [(''id'', JInt 1)] (init None))))) = [(1, 0)]
   \<and> dispatched (snd (parse_guild_create [(''id'', JInt 1), (''unavailable'', JBool False)]
               (snd (parse_guild_create [(''id'', JInt 1)] (init None)))))
       = [(''guild_join'', [AGuild 0]), (''guild_available'', [AGuild 0])])
   \<and> (map_of guild_one_record ''unavailable'' = None
   \<and> map_of guild_one_record ''id'' = Some (JInt 1)
   \<and> map_of guild_one_available ''unavailable'' = Some (JBool False)
   \<and> map_of guild_one_available ''id'' = Some (JInt 1)
   \<and> distinct (map fst (guilds after_ready))
   \<and> distinct (map fst (guilds (init None)))
   \<and> large (guild_objs (snd (parse_guild_create guild_one_available
               (snd (parse_guild_create guild_one_record after_ready)))) 1)
   \<and> ready_state (snd (parse_guild_create guild_one_record after_ready))
       = Some \<lparr>launch = False, ready_guilds = []\<rparr>
   \<and> ready_state (snd (parse_guild_create guild_one_available
               (snd (parse_guild_create guild_one_record after_ready))))
       = Some \<lparr>launch = False, ready_guilds = [1]\<rparr>
   \<and> large (guild_objs (snd (parse_guild_create guild_one_available
               (snd (parse_guild_create guild_one_record (init None))))) 0)
   \<and> ready_state (snd (parse_guild_create guild_one_record (init None))) = None
   \<and> tasks (snd (parse_guild_create guild_one_available
               (snd (parse_guild_create guild_one_record (init None)))))
       = [ChunkAndDispatch 0 JNull, ChunkAndDispatch 0 (JBool False)]
   \<and> dispatched (chunk_and_dispatch 0 (JBool False)
        (snd (parse_guild_create guild_one_available
               (snd (parse_guild_create guild_one_record (init None))))))
       = [(''guild_available'', [AGuild 0])])"
proof -
  have small: "map_of [(''id'', JInt 1)] ''unavailable'' = None
   \<and> map_of [(''id'', JInt 1)] ''id'' = Some (JInt 1)
   \<and> map_of [(''id'', JInt 1), (''unavailable'', JBool False)] ''unavailable'' = Some (JBool False)
   \<and> map_of [(''id'', JInt 1), (''unavailable'', JBool False)] ''id'' = Some (JInt 1)
   \<and> distinct (map fst (guilds (init None)))
   \<and> guilds (snd (parse_guild_create [(''id'', JInt 1), (''unavailable'', JBool False)]
               (snd (parse_guild_create [(''id'', JInt 1)] (init None))))) = [(1, 0)]
   \<and> dispatched (snd (parse_guild_create [(''id'', JInt 1), (''unavailable'', JBool False)]
               (snd (parse_guild_create [(''id'', JInt 1)] (init None)))))
       = [(''guild_join'', [AGuild 0]), (''guild_available'', [AGuild 0])]"
  proof -
    have h1: "map_of [(''id'', JInt 1)] ''unavailable'' = None" by simp
    have h2: "map_of [(''id'', JInt 1)] ''id'' = Some (JInt 1)" by simp
    have h3: "map_of [(''id'', JInt 1), (''unavailable'', JBool False)] ''unavailable''
                = Some (JBool False)" by simp
    have h4: "map_of [(''id'', JInt 1), (''unavailable'', JBool False)] ''id'' = Some (JInt 1)"
      by simp
    have h5: "distinct (map fst (guilds (init None)))" by (simp add: init_def clear_def)
    have first: "snd (parse_guild_create [(''id'', JInt 1)] (init None))
        = (init None)\<lparr>guild_objs := (\<lambda>r. empty_guild)(0 := empty_guild\<lparr>gid := 1\<rparr>),
            next_ref := 1, guilds := [(1, 0)], dispatched := [(''guild_join'', [AGuild 0])]\<rparr>"
      by (simp add: parse_guild_create_def get_create_guild_def py_get_def add_guild_from_data_def
        Guild_from_data_def py_int_item_def py_item_def add_guild_def dispatch_def Let_def
        init_def clear_def empty_guild_def)
    show ?thesis
      using guild_create_reavailable [OF h1 h2 h3 h4 h5] h5
      by (simp only: first)
         (simp add: parse_guild_create_def get_create_guild_def get_guild_def py_get_def
            Guild_from_data_def py_int_item_def py_item_def dispatch_def Let_def empty_guild_def)
  qed
  have large: "map_of guild_one_record ''unavailable'' = None
   \<and> map_of guild_one_record ''id'' = Some (JInt 1)
   \<and> map_of guild_one_available ''unavailable'' = Some (JBool False)
   \<and> map_of guild_one_available ''id'' = Some (JInt 1)
   \<and> distinct (map fst (guilds after_ready))
   \<and> distinct (map fst (guilds (init None)))
   \<and> large (guild_objs (snd (parse_guild_create guild_one_available
               (snd (parse_guild_create guild_one_record after_ready)))) 1)
   \<and> ready_state (snd (parse_guild_create guild_one_record after_ready))
       = Some \<lparr>launch = False, ready_guilds = []\<rparr>
   \<and> ready_state (snd (parse_guild_create guild_one_available
               (snd (parse_guild_create guild_one_record after_ready))))
       = Some \<lparr>launch = False, ready_guilds = [1]\<rparr>
   \<and> large (guild_objs (snd (parse_guild_create guild_one_available
               (snd (parse_guild_create guild_one_record (init None))))) 0)
   \<and> ready_state (snd (parse_guild_create guild_one_record (init None))) = None
   \<and> tasks (snd (parse_guild_create guild_one_available
               (snd (parse_guild_create guild_one_record (init None)))))
       = [ChunkAndDispatch 0 JNull, ChunkAndDispatch 0 (JBool False)]
   \<and> dispatched (chunk_and_dispatch 0 (JBool False)
        (snd (parse_guild_create guild_one_available
               (snd (parse_guild_create guild_one_record (init None))))))
       = [(''guild_available'', [AGuild 0])]"
  proof -
    have h1: "map_of guild_one_record ''unavailable'' = None"
      and h2: "map_of guild_one_record ''id'' = Some (JInt 1)"
      by (simp_all add: guild_one_record_def)
    have h3: "map_of guild_one_available ''unavailable'' = Some (JBool False)"
      and h4: "map_of guild_one_available ''id'' = Some (JInt 1)"
      by (simp_all add: guild_one_available_def)
    have h5: "distinct (map fst (guilds after_ready))" by (simp add: after_ready_eq)
    have h6: "distinct (map fst (guilds (init None)))" by (simp add: init_def clear_def)
    have first: "snd (parse_guild_create guild_one_record after_ready)
        = after_ready\<lparr>guild_objs := (\<lambda>r. empty_guild)(1 := guild_one),
            next_ref := 2, guilds := [(1, 1)], tasks := [DelayReady, ChunkAndDispatch 1 JNull]\<rparr>"
      by (simp add: parse_guild_create_def get_create_guild_def py_get_def add_guild_from_data_def
        Guild_from_data_def py_int_item_def py_item_def add_guild_def spawn_def Let_def
        after_ready_eq empty_guild_def guild_one_record_def guild_one_def)
    have first': "snd (parse_guild_create guild_one_record (init None))
        = (init None)\<lparr>guild_objs := (\<lambda>r. empty_guild)(0 := guild_one),
            next_ref := 1, guilds := [(1, 0)], tasks := [ChunkAndDispatch 0 JNull]\<rparr>"
      by (simp add: parse_guild_create_def get_create_guild_def py_get_def add_guild_from_data_def
        Guild_from_data_def py_int_item_def py_item_def add_guild_def spawn_def Let_def
        init_def clear_def empty_guild_def guild_one_record_def guild_one_def)
    have g: "Guild_from_data (guild_one\<lparr>unavailable := False\<rparr>) guild_one_available = Inr guild_one"
      by (simp add: Guild_from_data_def py_int_item_def py_item_def py_get_def guild_one_def
          guild_one_available_def)
    have second: "snd (parse_guild_create guild_one_available
                 (after_ready\<lparr>guild_objs := (\<lambda>r. empty_guild)(1 := guild_one),
                    next_ref := 2, guilds := [(1, 1)],
                    tasks := [DelayReady, ChunkAndDispatch 1 JNull]\<rparr>))
        = after_ready\<lparr>guild_objs := (\<lambda>r. empty_guild)(1 := guild_one),
            next_ref := 2, guilds := [(1, 1)], tasks := [DelayReady, ChunkAndDispatch 1 JNull],
            ready_state := Some \<lparr>launch = False, ready_guilds = [1]\<rparr>\<rparr>"
      by (simp add: parse_guild_create_def get_create_guild_def get_guild_def py_get_def
            Guild_from_data_def py_int_item_def py_item_def Let_def
            after_ready_eq guild_one_available_def guild_one_def)
    have second': "snd (parse_guild_create guild_one_available
                 ((init None)\<lparr>guild_objs := (\<lambda>r. empty_guild)(0 := guild_one),
                    next_ref := 1, guilds := [(1, 0)], tasks := [ChunkAndDispatch 0 JNull]\<rparr>))
        = (init None)\<lparr>guild_objs := (\<lambda>r. empty_guild)(0 := guild_one),
            next_ref := 1, guilds := [(1, 0)],
            tasks := [ChunkAndDispatch 0 JNull, ChunkAndDispatch 0 (JBool False)]\<rparr>"
      by (simp add: parse_guild_create_def get_create_guild_def get_guild_def py_get_def
            Guild_from_data_def py_int_item_def py_item_def Let_def spawn_def
            init_def clear_def guild_one_available_def guild_one_def)
    have A: "large (guild_objs (snd (parse_guild_create guild_one_available
                 (snd (parse_guild_create guild_one_record after_ready)))) 1)
       \<and> ready_state (snd (parse_guild_create guild_one_record after_ready))
         = Some \<lparr>launch = False, ready_guilds = []\<rparr>
       \<and> ready_state (snd (parse_guild_create guild_one_available
                 (snd (parse_guild_create guild_one_record after_ready))))
         = Some \<lparr>launch = False, ready_guilds = [1]\<rparr>"
      using guild_create_reavailable [OF h1 h2 h3 h4 h5]
      by (simp only: first second) (simp add: after_ready_eq guild_one_def)
    have B: "large (guild_objs (snd (parse_guild_create guild_one_available
                 (snd (parse_guild_create guild_one_record (init None))))) 0)
     \<and> ready_state (snd (parse_guild_create guild_one_record (init None))) = None
     \<and> tasks (snd (parse_guild_create guild_one_available
                 (snd (parse_guild_create guild_one_record (init None)))))
         = [ChunkAndDispatch 0 JNull, ChunkAndDispatch 0 (JBool False)]
     \<and> dispatched (chunk_and_dispatch 0 (JBool False)
          (snd (parse_guild_create guild_one_available
                 (snd (parse_guild_create guild_one_record (init None))))))
         = [(''guild_available'', [AGuild 0])]"
      using guild_create_reavailable [OF h1 h2 h3 h4 h6]
      by (simp only: first' second') (simp add: init_def clear_def guild_one_def chunk_and_dispatch_available)
    show ?thesis
      using A B h1 h2 h3 h4 h5 h6 by simp
  qed
  show ?thesis using small large by blast
qed

text \<open>
  The claim as stated fails during the readiness phase: for a large guild both records
  are handled without any \<^verbatim>\<open>guild_available\<close> dispatch; the second call only appends
  the guild to the pending list.
\<close>

theorem guild_create_ready_phase_counterexample:
  "map_of guild_one_record ''unavailable'' = None
   \<and> map_of guild_one_available ''unavailable'' = Some (JBool False)
   \<and> map_of guild_one_record ''id'' = Some (JInt 1)
   \<and> map_of guild_one_available ''id'' = Some (JInt 1)
   \<and> guilds (snd (parse_guild_create guild_one_available
               (snd (parse_guild_create guild_one_record after_ready)))) = [(1, 1)]
   \<and> dispatched (snd (parse_guild_create guild_one_available
               (snd (parse_guild_create guild_one_record after_ready)))) = []
   \<and> ready_state (snd (parse_guild_create guild_one_available
               (snd (parse_guild_create guild_one_record after_ready))))
       = Some \<lparr>launch = False, ready_guilds = [1]\<rparr>"
proof -
  have first: "snd (parse_guild_create guild_one_record after_ready)
      = after_ready\<lparr>guild_objs := (\<lambda>r. empty_guild)(1 := guild_one),
          next_ref := 2, guilds := [(1, 1)], tasks := [DelayReady, ChunkAndDispatch 1 JNull]\<rparr>"
    by (simp add: parse_guild_create_def get_create_guild_def py_get_def add_guild_from_data_def
      Guild_from_data_def py_int_item_def py_item_def add_guild_def spawn_def Let_def
      after_ready_eq empty_guild_def guild_one_record_def guild_one_def)
  show ?thesis
    by (simp add: first)
       (simp add: parse_guild_create_def get_create_guild_def get_guild_def py_get_def
      Guild_from_data_def py_int_item_def py_item_def Let_def
      after_ready_eq guild_one_record_def guild_one_available_def guild_one_def)
qed

text \<open>
  With the id as a string, the lookup under the raw id misses the guild that is cached
  under the int id, and a second guild object replaces the first.
\<close>

lemma guild_create_string_id_replaces:
  "guilds (snd (parse_guild_create [(''id'', JStr ''1'')] (init None))) = [(1, 0)]
   \<and> guilds (snd (parse_guild_create [(''id'', JStr ''1''), (''unavailable'', JBool False)]
               (snd (parse_guild_create [(''id'', JStr ''1'')] (init None))))) = [(1, 1)]
   \<and> next_ref (snd (parse_guild_create [(''id'', JStr ''1''), (''unavailable'', JBool False)]
               (snd (parse_guild_create [(''id'', JStr ''1'')] (init None))))) = 2"
proof -
  have first: "snd (parse_guild_create [(''id'', JStr ''1'')] (init None))
      = (init None)\<lparr>guild_objs := (\<lambda>r. empty_guild)(0 := empty_guild\<lparr>gid := 1\<rparr>),
          next_ref := 1, guilds := [(1, 0)], dispatched := [(''guild_join'', [AGuild 0])]\<rparr>"
    by (simp add: parse_guild_create_def get_create_guild_def py_get_def add_guild_from_data_def
      Guild_from_data_def py_int_item_def py_item_def add_guild_def dispatch_def Let_def
      init_def clear_def empty_guild_def int_of_str_simps)
  show ?thesis
    by (simp add: first)
       (simp add: parse_guild_create_def get_create_guild_def get_guild_def py_get_def
      add_guild_from_data_def Guild_from_data_def py_int_item_def py_item_def add_guild_def
      dispatch_def Let_def init_def clear_def empty_guild_def int_of_str_simps)
qed

text \<open>
  C3. A ready record that lists a large guild: \<^verbatim>\<open>parse_ready\<close> iterates the empty
  pending list of the ReadyState it has just created, not the guilds of the record, so
  no guild is cached and none is pending.
\<close>

theorem parse_ready_caches_no_guild:
  "fst (parse_ready factory ready_record (init None)) = None
   \<and> guilds (snd (parse_ready factory ready_record (init None))) = []
   \<and> ready_state (snd (parse_ready factory ready_record (init None)))
       = Some \<lparr>launch = False, ready_guilds = []\<rparr>
   \<and> tasks (snd (parse_ready factory ready_record (init None))) = [DelayReady]"
  by (simp add: parse_ready_def ready_record_def init_def clear_def py_item_def py_get_def
      try_insert_user_def py_int_item_def int_of_str_simps User_def spawn_def Let_def)

text \<open>
  C4. The capacity of the buffer is the requested \<^verbatim>\<open>max_messages\<close> (5000 by default)
  floored at 100. Over any run of message-create records the capacity does not change
  and the buffer never holds more than it: the buffer is the last \<open>capacity\<close> messages
  of what it held followed by the messages created, in arrival order. From an empty
  buffer, \<open>capacity + 5\<close> messages leave all but the first five; at capacity, one more
  message evicts exactly the oldest.
\<close>

theorem message_buffer_bounded_fifo:
  assumes inv: "length (messages s) \<le> max_messages s"
  shows "max_messages (init requested) = nat (max (case requested of None \<Rightarrow> 5000 | Some m \<Rightarrow> m) 100)
     \<and> messages (init requested) = []
     \<and> max_messages (message_creates records s) = max_messages s
     \<and> length (messages (message_creates records s)) \<le> max_messages s
     \<and> messages (message_creates records s)
         = drop (length (messages s @ created s records) - max_messages s)
             (messages s @ created s records)
     \<and> (messages s = [] \<and> length (created s records) = max_messages s + 5 \<longrightarrow>
          messages (message_creates records s) = drop 5 (created s records))
     \<and> (length (messages s) = max_messages s \<and> 0 < max_messages s
          \<and> new_message s data = Some m \<longrightarrow>
          fst (parse_message_create data s) = None
          \<and> messages (snd (parse_message_create data s)) = tl (messages s) @ [m])"
proof -
  have a: "max_messages (init requested) = nat (max (case requested of None \<Rightarrow> 5000 | Some m \<Rightarrow> m) 100)
     \<and> messages (init requested) = []"
    by (simp add: init_def clear_def)
  have b: "max_messages (message_creates records s) = max_messages s"
    and c: "messages (message_creates records s)
         = deque (max_messages s) (messages s @ created s records)"
    using message_creates_messages [OF inv] by simp_all
  have d: "length (messages (message_creates records s)) \<le> max_messages s"
    by (simp add: c length_deque)
  have e: "messages (message_creates records s) = drop 5 (created s records)"
    if "messages s = []" "length (created s records) = max_messages s + 5"
    using that by (simp add: c deque_def)
  have f: "fst (parse_message_create data s) = None
          \<and> messages (snd (parse_message_create data s)) = tl (messages s) @ [m]"
    if "length (messages s) = max_messages s" "0 < max_messages s" "new_message s data = Some m"
  proof -
    have "messages s \<noteq> []" using that by auto
    then have "drop (Suc 0) (messages s) = tl (messages s)" by (simp add: drop_Suc)
    then show ?thesis
      using that
      by (simp add: fst_parse_message_create snd_parse_message_create deque_append_def deque_def)
  qed
  show ?thesis
    using a b c d e f by (simp add: deque_def)
qed

theorem message_buffer_bounded_fifo_witness:
  "length (messages (init (Some 0))) \<le> max_messages (init (Some 0))
   \<and> max_messages (init (Some 0)) = 100
   \<and> messages (init (Some 0)) = []
   \<and> length (created (init (Some 0)) (map message_record [1..<106])) = max_messages (init (Some 0)) + 5
   \<and> map mid (messages (message_creates (map message_record [1..<106]) (init (Some 0))))
       = map int [6..<106]
   \<and> length (messages full_buffer) = max_messages full_buffer
   \<and> 0 < max_messages full_buffer
   \<and> new_message full_buffer (message_record 101)
       = Some \<lparr>mid = 101, mchannel = None, reactions = []\<rparr>
   \<and> mid (hd (messages full_buffer)) = 1
   \<and> length (messages (snd (parse_message_create (message_record 101) full_buffer))) = 100
   \<and> mid (hd (messages (snd (parse_message_create (message_record 101) full_buffer)))) = 2
   \<and> mid (last (messages (snd (parse_message_create (message_record 101) full_buffer)))) = 101"
proof -
  have h: "length (messages (init (Some 0))) \<le> max_messages (init (Some 0))"
    by (simp add: init_def clear_def)
  have n: "max_messages (init (Some 0)) = 100" "messages (init (Some 0)) = []"
    by (simp_all add: init_def clear_def)
  have c: "created (init (Some 0)) (map message_record [Suc 0..<106])
         = map (\<lambda>i. \<lparr>mid = int i, mchannel = None, reactions = []\<rparr>) [Suc 0..<106]"
    by (rule created_map) (rule new_message_record)
  have c2: "created (init (Some 0)) (map message_record [Suc 0..<101])
         = map (\<lambda>i. \<lparr>mid = int i, mchannel = None, reactions = []\<rparr>) [Suc 0..<101]"
    by (rule created_map) (rule new_message_record)
  have full: "max_messages full_buffer = 100"
    "messages full_buffer = map (\<lambda>i. \<lparr>mid = int i, mchannel = None, reactions = []\<rparr>) [Suc 0..<101]"
    using message_creates_messages [OF h, of "map message_record [1..<101]"]
    by (simp_all add: full_buffer_def n c2 deque_def)
  have nm: "new_message full_buffer (message_record 101)
       = Some \<lparr>mid = 101, mchannel = None, reactions = []\<rparr>"
    using new_message_record [of "Some 0" 101]
    by (simp add: full_buffer_def new_message_creates)
  have h2: "length (messages full_buffer) \<le> max_messages full_buffer"
    by (simp add: full)
  have a: "map mid (messages (message_creates (map message_record [1..<106]) (init (Some 0))))
       = map int [6..<106]"
    using message_buffer_bounded_fifo [OF h, of "Some 0" "map message_record [1..<106]"]
    by (simp add: c n drop_map comp_def)
  have "messages (snd (parse_message_create (message_record 101) full_buffer))
          = tl (messages full_buffer) @ [\<lparr>mid = 101, mchannel = None, reactions = []\<rparr>]"
    using message_buffer_bounded_fifo [OF h2, of None "[]" "message_record 101"
        "\<lparr>mid = 101, mchannel = None, reactions = []\<rparr>"] nm
    by (simp add: full)
  then have b: "length (messages (snd (parse_message_create (message_record 101) full_buffer))) = 100
     \<and> mid (hd (messages (snd (parse_message_create (message_record 101) full_buffer)))) = 2
     \<and> mid (last (messages (snd (parse_message_create (message_record 101) full_buffer)))) = 101"
    by (simp add: full map_tl [symmetric] hd_map del: upt_rec_numeral)
  have f: "mid (hd (messages full_buffer)) = 1"
    by (simp add: full hd_map del: upt_rec_numeral)
  have l: "length (created (init (Some 0)) (map message_record [1..<106]))
             = max_messages (init (Some 0)) + 5"
    using c by (simp add: n del: upt_rec_numeral)
  have m: "length (messages full_buffer) = max_messages full_buffer" "0 < max_messages full_buffer"
    by (simp_all add: full)
  show ?thesis
    using a b h n nm f l m by blast
qed

text \<open>
  C5. A guild-delete record for a cached guild, not marked unavailable: the buffer
  keeps exactly the messages that do not belong to the guild, in their order and within
  the capacity; the guild leaves the guild map; \<^verbatim>\<open>guild_remove\<close> is dispatched.
\<close>

theorem guild_delete_purges:
  assumes id: "py_int_item data ''id'' = Inr k"
    and cached: "map_of (guilds s) k = Some r"
    and keyed: "gid (guild_objs s r) = k"
    and gone: "\<not> py_truthy (py_get_default_False data ''unavailable'')"
    and inv: "length (messages s) \<le> max_messages s"
  shows "fst (parse_guild_delete data s) = None
    \<and> messages (snd (parse_guild_delete data s))
        = filter (\<lambda>msg. guild_ne s (message_guild msg) r) (messages s)
    \<and> length (messages (snd (parse_guild_delete data s))) \<le> max_messages (snd (parse_guild_delete data s))
    \<and> guilds (snd (parse_guild_delete data s)) = AList.delete k (guilds s)
    \<and> map_of (guilds (snd (parse_guild_delete data s))) k = None
    \<and> dispatched (snd (parse_guild_delete data s)) = dispatched s @ [(''guild_remove'', [AGuild r])]"
proof -
  have fl: "length (filter (\<lambda>msg. guild_ne s (message_guild msg) r) (messages s)) \<le> max_messages s"
    using inv length_filter_le [of "\<lambda>msg. guild_ne s (message_guild msg) r" "messages s"] by linarith
  then have dq: "deque (max_messages s) (filter (\<lambda>msg. guild_ne s (message_guild msg) r) (messages s))
            = filter (\<lambda>msg. guild_ne s (message_guild msg) r) (messages s)"
    by (rule deque_short)
  show ?thesis
    using id cached keyed gone fl
    by (simp add: parse_guild_delete_def get_guild_def dq remove_guild_def dispatch_def Let_def
        delete_conv)
qed

theorem guild_delete_purges_witness:
  "py_int_item [(''id'', JStr ''7'')] ''id'' = Inr 7
   \<and> map_of (guilds guild_with_messages) 7 = Some 0
   \<and> gid (guild_objs guild_with_messages 0) = 7
   \<and> \<not> py_truthy (py_get_default_False [(''id'', JStr ''7'')] ''unavailable'')
   \<and> map mid (messages guild_with_messages) = [5, 6, 8]
   \<and> map mid (messages (snd (parse_guild_delete [(''id'', JStr ''7'')] guild_with_messages))) = [6]
   \<and> guilds (snd (parse_guild_delete [(''id'', JStr ''7'')] guild_with_messages)) = []
   \<and> dispatched (snd (parse_guild_delete [(''id'', JStr ''7'')] guild_with_messages))
       = dispatched guild_with_messages @ [(''guild_remove'', [AGuild 0])]"
proof -
  have h1: "py_int_item [(''id'', JStr ''7'')] ''id'' = Inr 7"
    by (simp add: py_int_item_def py_item_def int_of_str_simps)
  have h2: "map_of (guilds guild_with_messages) 7 = Some 0"
    by (simp add: guild_with_messages_eq)
  have h3: "gid (guild_objs guild_with_messages 0) = 7"
    by (simp add: guild_with_messages_eq example_guild_def)
  have h4: "\<not> py_truthy (py_get_default_False [(''id'', JStr ''7'')] ''unavailable'')"
    by (simp add: py_get_default_False_def)
  have h5: "length (messages guild_with_messages) \<le> max_messages guild_with_messages"
    by (simp add: guild_with_messages_eq init_def clear_def)
  show ?thesis
    using guild_delete_purges [OF h1 h2 h3 h4 h5] h1 h2 h3 h4
    by (simp add: guild_with_messages_eq guild_ne_def message_guild_def example_guild_def)
qed

text \<open>
  C6. Two calls of \<^verbatim>\<open>try_insert_user\<close> with records of the same id: the second returns
  the very object the first returned and leaves the state as it was (no user is
  constructed); when the id was not cached, the first call constructs the user and
  inserts it under the id.
\<close>

theorem try_insert_user_reference_stable:
  assumes id1: "py_int_item d1 ''id'' = Inr k"
      and id2: "py_int_item d2 ''id'' = Inr k"
  shows "\<exists>u. fst (try_insert_user d1 s) = Inr u
           \<and> try_insert_user d2 (snd (try_insert_user d1 s)) = (Inr u, snd (try_insert_user d1 s))
           \<and> (map_of (users s) k = None \<longrightarrow>
                u = User (next_ref s) k d1
              \<and> snd (try_insert_user d1 s)
                  = s\<lparr>users := users s @ [(k, u)], next_ref := Suc (next_ref s)\<rparr>)"
  using id1 id2
  by (cases "map_of (users s) k")
     (simp_all add: try_insert_user_def Let_def update_absent map_add_def)

theorem try_insert_user_reference_stable_witness:
  "py_int_item [(''id'', JStr ''42''), (''username'', JStr ''a'')] ''id'' = Inr 42
   \<and> py_int_item [(''id'', JInt 42)] ''id'' = Inr 42
   \<and> try_insert_user [(''id'', JInt 42)]
        (snd (try_insert_user [(''id'', JStr ''42''), (''username'', JStr ''a'')] (init None)))
      = (Inr \<lparr>uref = 0, uid = 42, udata = [(''id'', JStr ''42''), (''username'', JStr ''a'')]\<rparr>,
         snd (try_insert_user [(''id'', JStr ''42''), (''username'', JStr ''a'')] (init None)))"
proof -
  have h1: "py_int_item [(''id'', JStr ''42''), (''username'', JStr ''a'')] ''id'' = Inr 42"
    by (simp add: py_int_item_def py_item_def int_of_str_def is_digit_def)
  have h2: "py_int_item [(''id'', JInt 42)] ''id'' = Inr 42"
    by (simp add: py_int_item_def py_item_def)
  have e: "map_of (users (init None)) 42 = None"
    by (simp add: init_def clear_def)
  show ?thesis
    using try_insert_user_reference_stable [OF h1 h2, of "init None"] h1 h2 e
    by (auto simp: User_def init_def clear_def)
qed

text \<open>
  C7, as amended. The listeners that are examined hold distinct futures, each pending
  or cancelled. When some listener that is not cancelled accepts the argument, resolving
  the chunk class fulfils, with the given result, exactly the first such listener,
  removes it and stops there; the listeners after it stay, with their futures as they
  were. In both cases, match or no match, every examined listener that is cancelled is
  pruned and stays cancelled, every examined listener whose predicate raises gets the
  failure stored on its future and is removed as well, and the listeners whose
  predicate returned false stay, in their order and still pending. Without a match
  the whole list is examined and no future is fulfilled. Nothing else in the state
  changes.
\<close>

theorem process_listeners_first_match:
  assumes d: "distinct (map future pre)"
    and pre: "\<forall>l\<in>set pre. futures s (future l) = Cancelled
                 \<or> (futures s (future l) = Pending \<and> predicate l a \<noteq> Inr True)"
  shows "(listeners s = pre @ m # post \<and> future m \<notin> future ` set pre
          \<and> futures s (future m) = Pending \<and> predicate m a = Inr True \<longrightarrow>
       fst (process_listeners chunk a r s) = None
     \<and> listeners (snd (process_listeners chunk a r s))
         = [l\<leftarrow>pre. futures s (future l) = Pending \<and> predicate l a = Inr False] @ post
     \<and> futures (snd (process_listeners chunk a r s)) (future m) = Finished r
     \<and> (\<forall>l\<in>set pre. futures (snd (process_listeners chunk a r s)) (future l) =
           (if futures s (future l) = Cancelled then Cancelled
            else case predicate l a of Inl e \<Rightarrow> Failed e | Inr b \<Rightarrow> Pending))
     \<and> (\<forall>f. f \<notin> future ` set (pre @ [m]) \<longrightarrow>
            futures (snd (process_listeners chunk a r s)) f = futures s f)
     \<and> snd (process_listeners chunk a r s)
         = s\<lparr>listeners := listeners (snd (process_listeners chunk a r s)),
              futures := futures (snd (process_listeners chunk a r s))\<rparr>)
   \<and> (listeners s = pre \<longrightarrow>
       fst (process_listeners chunk a r s) = None
     \<and> listeners (snd (process_listeners chunk a r s))
         = [l\<leftarrow>pre. futures s (future l) = Pending \<and> predicate l a = Inr False]
     \<and> (\<forall>l\<in>set pre. futures (snd (process_listeners chunk a r s)) (future l) =
           (if futures s (future l) = Cancelled then Cancelled
            else case predicate l a of Inl e \<Rightarrow> Failed e | Inr b \<Rightarrow> Pending))
     \<and> (\<forall>f. f \<notin> future ` set pre \<longrightarrow>
            futures (snd (process_listeners chunk a r s)) f = futures s f)
     \<and> snd (process_listeners chunk a r s)
         = s\<lparr>listeners := listeners (snd (process_listeners chunk a r s)),
              futures := futures (snd (process_listeners chunk a r s))\<rparr>)"
proof (intro conjI impI)
  assume h: "listeners s = pre @ m # post \<and> future m \<notin> future ` set pre
          \<and> futures s (future m) = Pending \<and> predicate m a = Inr True"
  then have ls: "listeners s = pre @ m # post"
    and m: "futures s (future m) = Pending" "predicate m a = Inr True"
    and dm: "distinct (map future (pre @ [m]))"
    using d by auto
  from resolve_first_match [OF dm pre m, of r post] obtain F' where
    F': "resolve a r (pre @ m # post) (futures s)
            = (None, [l\<leftarrow>pre. futures s (future l) = Pending \<and> predicate l a = Inr False] @ post, F')
     \<and> F' (future m) = Finished r
     \<and> (\<forall>l\<in>set pre. F' (future l) =
           (if futures s (future l) = Cancelled then Cancelled
            else case predicate l a of Inl e \<Rightarrow> Failed e | Inr b \<Rightarrow> Pending))
     \<and> (\<forall>f. f \<notin> future ` set (pre @ [m]) \<longrightarrow> F' f = futures s f)" ..
  have p: "process_listeners chunk a r s
      = (None, s\<lparr>listeners := [l\<leftarrow>pre. futures s (future l) = Pending \<and> predicate l a = Inr False] @ post,
                 futures := F'\<rparr>)"
    using F' ls by (simp add: process_listeners_resolve)
  show "fst (process_listeners chunk a r s) = None" using p by simp
  show "listeners (snd (process_listeners chunk a r s))
         = [l\<leftarrow>pre. futures s (future l) = Pending \<and> predicate l a = Inr False] @ post"
    using p by simp
  show "futures (snd (process_listeners chunk a r s)) (future m) = Finished r"
    using p F' by simp
  show "\<forall>l\<in>set pre. futures (snd (process_listeners chunk a r s)) (future l) =
           (if futures s (future l) = Cancelled then Cancelled
            else case predicate l a of Inl e \<Rightarrow> Failed e | Inr b \<Rightarrow> Pending)"
    using p F' by simp
  show "\<forall>f. f \<notin> future ` set (pre @ [m]) \<longrightarrow>
            futures (snd (process_listeners chunk a r s)) f = futures s f"
    using p F' by simp
  show "snd (process_listeners chunk a r s)
         = s\<lparr>listeners := listeners (snd (process_listeners chunk a r s)),
              futures := futures (snd (process_listeners chunk a r s))\<rparr>"
    using p by simp
next
  assume ls: "listeners s = pre"
  from resolve_no_match [OF d pre, of r] obtain F' where
    F': "resolve a r pre (futures s)
            = (None, [l\<leftarrow>pre. futures s (future l) = Pending \<and> predicate l a = Inr False], F')
     \<and> (\<forall>l\<in>set pre. F' (future l) =
           (if futures s (future l) = Cancelled then Cancelled
            else case predicate l a of Inl e \<Rightarrow> Failed e | Inr b \<Rightarrow> Pending))
     \<and> (\<forall>f. f \<notin> future ` set pre \<longrightarrow> F' f = futures s f)" ..
  have p: "process_listeners chunk a r s
      = (None, s\<lparr>listeners := [l\<leftarrow>pre. futures s (future l) = Pending \<and> predicate l a = Inr False],
                 futures := F'\<rparr>)"
    using F' ls by (simp add: process_listeners_resolve)
  show "fst (process_listeners chunk a r s) = None" using p by simp
  show "listeners (snd (process_listeners chunk a r s))
         = [l\<leftarrow>pre. futures s (future l) = Pending \<and> predicate l a = Inr False]"
    using p by simp
  show "\<forall>l\<in>set pre. futures (snd (process_listeners chunk a r s)) (future l) =
           (if futures s (future l) = Cancelled then Cancelled
            else case predicate l a of Inl e \<Rightarrow> Failed e | Inr b \<Rightarrow> Pending)"
    using p F' by simp
  show "\<forall>f. f \<notin> future ` set pre \<longrightarrow>
            futures (snd (process_listeners chunk a r s)) f = futures s f"
    using p F' by simp
  show "snd (process_listeners chunk a r s)
         = s\<lparr>listeners := listeners (snd (process_listeners chunk a r s)),
              futures := futures (snd (process_listeners chunk a r s))\<rparr>"
    using p by simp
qed

theorem process_listeners_first_match_witness:
  "(listeners waiting =
     [\<lparr>ltype = chunk, future = 0, predicate = chunk_predicate 1\<rparr>,
      \<lparr>ltype = chunk, future = 1, predicate = chunk_predicate 2\<rparr>]
     @ \<lparr>ltype = chunk, future = 2, predicate = chunk_predicate 1\<rparr>
     # [\<lparr>ltype = chunk, future = 3, predicate = chunk_predicate 1\<rparr>]
   \<and> futures waiting 0 = Cancelled \<and> futures waiting 1 = Pending \<and> futures waiting 2 = Pending
   \<and> fst (process_listeners chunk (Some guild_one) (JInt 5) waiting) = None
   \<and> map future (listeners (snd (process_listeners chunk (Some guild_one) (JInt 5) waiting))) = [1, 3]
   \<and> futures (snd (process_listeners chunk (Some guild_one) (JInt 5) waiting)) 0 = Cancelled
   \<and> futures (snd (process_listeners chunk (Some guild_one) (JInt 5) waiting)) 1 = Pending
   \<and> futures (snd (process_listeners chunk (Some guild_one) (JInt 5) waiting)) 2 = Finished (JInt 5)
   \<and> futures (snd (process_listeners chunk (Some guild_one) (JInt 5) waiting)) 3 = Pending)
   \<and> (fst (process_listeners chunk (Some guild_99) (JInt 5) waiting) = None
   \<and> map future (listeners (snd (process_listeners chunk (Some guild_99) (JInt 5) waiting))) = [1, 2, 3]
   \<and> futures (snd (process_listeners chunk (Some guild_99) (JInt 5) waiting)) 0 = Cancelled
   \<and> futures (snd (process_listeners chunk (Some guild_99) (JInt 5) waiting)) 1 = Pending
   \<and> futures (snd (process_listeners chunk (Some guild_99) (JInt 5) waiting)) 2 = Pending
   \<and> futures (snd (process_listeners chunk (Some guild_99) (JInt 5) waiting)) 3 = Pending)"
proof -
  let ?l0 = "\<lparr>ltype = chunk, future = 0, predicate = chunk_predicate 1\<rparr>"
  let ?l1 = "\<lparr>ltype = chunk, future = 1, predicate = chunk_predicate 2\<rparr>"
  let ?m = "\<lparr>ltype = chunk, future = 2, predicate = chunk_predicate 1\<rparr>"
  let ?l3 = "\<lparr>ltype = chunk, future = 3, predicate = chunk_predicate 1\<rparr>"
  let ?pre = "[?l0, ?l1]"
  let ?post = "[?l3]"
  let ?all = "[?l0, ?l1, ?m, ?l3]"
  have h1: "listeners waiting = ?pre @ ?m # ?post"
    by (simp add: waiting_eq)
  have h2: "distinct (map future ?pre)" by simp
  have h3: "\<forall>l\<in>set ?pre. futures waiting (future l) = Cancelled
              \<or> (futures waiting (future l) = Pending \<and> predicate l (Some guild_one) \<noteq> Inr True)"
    by (simp add: waiting_eq chunk_predicate_def guild_one_def)
  have h4: "future ?m \<notin> future ` set ?pre" by simp
  have h5: "futures waiting (future ?m) = Pending" by (simp add: waiting_eq)
  have h6: "predicate ?m (Some guild_one) = Inr True"
    by (simp add: chunk_predicate_def guild_one_def)
  have A: "listeners waiting = ?pre @ ?m # ?post
   \<and> futures waiting 0 = Cancelled \<and> futures waiting 1 = Pending \<and> futures waiting 2 = Pending
   \<and> fst (process_listeners chunk (Some guild_one) (JInt 5) waiting) = None
   \<and> map future (listeners (snd (process_listeners chunk (Some guild_one) (JInt 5) waiting))) = [1, 3]
   \<and> futures (snd (process_listeners chunk (Some guild_one) (JInt 5) waiting)) 0 = Cancelled
   \<and> futures (snd (process_listeners chunk (Some guild_one) (JInt 5) waiting)) 1 = Pending
   \<and> futures (snd (process_listeners chunk (Some guild_one) (JInt 5) waiting)) 2 = Finished (JInt 5)
   \<and> futures (snd (process_listeners chunk (Some guild_one) (JInt 5) waiting)) 3 = Pending"
    using process_listeners_first_match [OF h2 h3, of ?m ?post "JInt 5"] h1 h4 h5 h6
    by (simp add: waiting_eq chunk_predicate_def guild_one_def)
  have g1: "listeners waiting = ?all" by (simp add: waiting_eq)
  have g2: "distinct (map future ?all)" by simp
  have g3: "\<forall>l\<in>set ?all. futures waiting (future l) = Cancelled
              \<or> (futures waiting (future l) = Pending \<and> predicate l (Some guild_99) \<noteq> Inr True)"
    by (simp add: waiting_eq chunk_predicate_def guild_99_def)
  have B: "fst (process_listeners chunk (Some guild_99) (JInt 5) waiting) = None
   \<and> map future (listeners (snd (process_listeners chunk (Some guild_99) (JInt 5) waiting))) = [1, 2, 3]
   \<and> futures (snd (process_listeners chunk (Some guild_99) (JInt 5) waiting)) 0 = Cancelled
   \<and> futures (snd (process_listeners chunk (Some guild_99) (JInt 5) waiting)) 1 = Pending
   \<and> futures (snd (process_listeners chunk (Some guild_99) (JInt 5) waiting)) 2 = Pending
   \<and> futures (snd (process_listeners chunk (Some guild_99) (JInt 5) waiting)) 3 = Pending"
    using process_listeners_first_match [OF g2 g3, of ?m ?post "JInt 5"] g1
    by (simp add: waiting_eq chunk_predicate_def guild_99_def)
  show ?thesis using A B by blast
qed

text \<open>
  The claim as stated fails on a listener whose predicate raises: it is neither
  cancelled nor the first match, and it is removed all the same.
\<close>

theorem process_listeners_raising_counterexample:
  "futures raising_first 0 = Pending
   \<and> predicate (hd (listeners raising_first)) (Some guild_one) = Inl (PredicateError 0)
   \<and> fst (process_listeners chunk (Some guild_one) (JInt 5) raising_first) = None
   \<and> listeners (snd (process_listeners chunk (Some guild_one) (JInt 5) raising_first)) = []
   \<and> futures (snd (process_listeners chunk (Some guild_one) (JInt 5) raising_first)) 0
       = Failed (PredicateError 0)
   \<and> futures (snd (process_listeners chunk (Some guild_one) (JInt 5) raising_first)) 1
       = Finished (JInt 5)"
  by (simp add: raising_first_def process_listeners_resolve init_def clear_def always_raises_def
      chunk_predicate_def guild_one_def set_exception_def set_result_def)

text \<open>
  C8. A reaction-add record for a cached message without reactions creates no row in
  two cases: with the message id as the gateway sends it, a string, the message (cached
  under its int id) is not found and nothing happens; with an int message id and a
  custom emoji, \<^verbatim>\<open>_get_reaction_emoji\<close> raises AttributeError on \<^verbatim>\<open>self.servers\<close>.
\<close>

theorem reaction_add_no_row:
  "map reactions (messages with_message) = [[]]
   \<and> parse_message_reaction_add
        [(''message_id'', JStr ''5''), (''user_id'', JStr ''2''), (''channel_id'', JStr ''3''),
         (''emoji'', JObj [(''id'', JNull), (''name'', JStr ''x'')])] with_message
       = (None, with_message)
   \<and> get_message (JInt 5) with_message = Some \<lparr>mid = 5, mchannel = None, reactions = []\<rparr>
   \<and> parse_message_reaction_add
        [(''message_id'', JInt 5), (''user_id'', JInt 2), (''channel_id'', JInt 3),
         (''emoji'', JObj [(''id'', JInt 9), (''name'', JStr ''blob'')])] with_message
       = (Some AttributeError, with_message)"
  by (simp add: with_message_eq parse_message_reaction_add_def py_item_def
      get_message_def get_reaction_emoji_def get_reaction_def after_ready_eq)

text \<open>
  C9. A reaction-remove record for a cached message without a matching row, with a
  custom emoji: the handler raises AttributeError (and leaves the cache as it was).
\<close>

theorem reaction_remove_raises:
  "get_message (JInt 5) with_message = Some \<lparr>mid = 5, mchannel = None, reactions = []\<rparr>
   \<and> parse_message_reaction_remove
        [(''message_id'', JInt 5), (''user_id'', JInt 2), (''channel_id'', JInt 3),
         (''emoji'', JObj [(''id'', JInt 9), (''name'', JStr ''blob'')])] with_message
       = (Some AttributeError, with_message)"
  by (simp add: with_message_eq parse_message_reaction_remove_def py_item_def
      get_message_def get_reaction_emoji_def get_reaction_def after_ready_eq)

text \<open>
  C10. \<^verbatim>\<open>clear()\<close> resets the current user, the sequence, the session id, the calls, the
  users, the guilds, the voice clients, the private channels with their by-user index
  and the message buffer, and leaves the listener registry as it was: the listeners and
  their futures are unchanged, and resolving a chunk event after \<^verbatim>\<open>clear()\<close> does to
  the registry exactly what it would have done before. In particular a listener
  registered before \<^verbatim>\<open>clear()\<close> that is pending, accepts the argument and is the first
  to do so is fulfilled with the result by a chunk event after \<^verbatim>\<open>clear()\<close>, and removed.
\<close>

theorem clear_keeps_listeners:
  "user (clear s) = None \<and> sequence (clear s) = None \<and> session_id (clear s) = None
   \<and> calls (clear s) = [] \<and> users (clear s) = [] \<and> guilds (clear s) = []
   \<and> voice_clients (clear s) = [] \<and> private_channels (clear s) = []
   \<and> private_channels_by_user (clear s) = [] \<and> messages (clear s) = []
   \<and> listeners (clear s) = listeners s \<and> futures (clear s) = futures s
   \<and> process_listeners chunk a r (clear s)
       = (fst (process_listeners chunk a r s), clear (snd (process_listeners chunk a r s)))
   \<and> (listeners s = pre @ m # post \<and> distinct (map future (pre @ [m]))
        \<and> (\<forall>l\<in>set pre. futures s (future l) = Cancelled
                 \<or> (futures s (future l) = Pending \<and> predicate l a \<noteq> Inr True))
        \<and> futures s (future m) = Pending \<and> predicate m a = Inr True \<longrightarrow>
        fst (process_listeners chunk a r (clear s)) = None
      \<and> futures (snd (process_listeners chunk a r (clear s))) (future m) = Finished r
      \<and> listeners (snd (process_listeners chunk a r (clear s)))
          = [l\<leftarrow>pre. futures s (future l) = Pending \<and> predicate l a = Inr False] @ post)"
proof -
  have frame: "user (clear s) = None \<and> sequence (clear s) = None \<and> session_id (clear s) = None
   \<and> calls (clear s) = [] \<and> users (clear s) = [] \<and> guilds (clear s) = []
   \<and> voice_clients (clear s) = [] \<and> private_channels (clear s) = []
   \<and> private_channels_by_user (clear s) = [] \<and> messages (clear s) = []
   \<and> listeners (clear s) = listeners s \<and> futures (clear s) = futures s
   \<and> process_listeners chunk a r (clear s)
       = (fst (process_listeners chunk a r s), clear (snd (process_listeners chunk a r s)))"
    by (cases "resolve a r (listeners s) (futures s)")
       (auto simp: clear_def process_listeners_resolve split: option.splits)
  have later: "fst (process_listeners chunk a r (clear s)) = None
      \<and> futures (snd (process_listeners chunk a r (clear s))) (future m) = Finished r
      \<and> listeners (snd (process_listeners chunk a r (clear s)))
          = [l\<leftarrow>pre. futures s (future l) = Pending \<and> predicate l a = Inr False] @ post"
    if ls: "listeners s = pre @ m # post" and d: "distinct (map future (pre @ [m]))"
      and pre: "\<forall>l\<in>set pre. futures s (future l) = Cancelled
                 \<or> (futures s (future l) = Pending \<and> predicate l a \<noteq> Inr True)"
      and m: "futures s (future m) = Pending" "predicate m a = Inr True"
  proof -
    from resolve_first_match [OF d pre m, of r post] obtain F' where
      F': "resolve a r (pre @ m # post) (futures s)
            = (None, [l\<leftarrow>pre. futures s (future l) = Pending \<and> predicate l a = Inr False] @ post, F')
       \<and> F' (future m) = Finished r
       \<and> (\<forall>l\<in>set pre. F' (future l) =
           (if futures s (future l) = Cancelled then Cancelled
            else case predicate l a of Inl e \<Rightarrow> Failed e | Inr b \<Rightarrow> Pending))
       \<and> (\<forall>f. f \<notin> future ` set (pre @ [m]) \<longrightarrow> F' f = futures s f)" ..
    have "process_listeners chunk a r (clear s)
        = (None, (clear s)\<lparr>listeners := [l\<leftarrow>pre. futures s (future l) = Pending \<and> predicate l a = Inr False] @ post,
                   futures := F'\<rparr>)"
      using F' ls by (simp add: process_listeners_resolve clear_def)
    then show ?thesis using F' by simp
  qed
  show ?thesis using frame later by blast
qed

theorem clear_keeps_listeners_witness:
  "users waiting_ready \<noteq> [] \<and> guilds waiting_ready = [(7, 1)] \<and> user waiting_ready \<noteq> None
   \<and> listeners waiting_ready = [] @ \<lparr>ltype = chunk, future = 2, predicate = chunk_predicate 7\<rparr> # []
   \<and> futures waiting_ready 2 = Pending
   \<and> predicate \<lparr>ltype = chunk, future = 2, predicate = chunk_predicate 7\<rparr>
        (Some (guild_objs waiting_ready 1)) = Inr True
   \<and> users (clear waiting_ready) = [] \<and> guilds (clear waiting_ready) = []
   \<and> user (clear waiting_ready) = None
   \<and> map future (listeners (clear waiting_ready)) = [2]
   \<and> fst (process_listeners chunk (Some (guild_objs waiting_ready 1)) (JInt 1000)
             (clear waiting_ready)) = None
   \<and> futures (snd (process_listeners chunk (Some (guild_objs waiting_ready 1)) (JInt 1000)
             (clear waiting_ready))) 2 = Finished (JInt 1000)
   \<and> listeners (snd (process_listeners chunk (Some (guild_objs waiting_ready 1)) (JInt 1000)
             (clear waiting_ready))) = []"
proof -
  let ?m = "\<lparr>ltype = chunk, future = 2, predicate = chunk_predicate 7\<rparr>"
  let ?a = "Some (guild_objs waiting_ready 1)"
  have h1: "listeners waiting_ready = [] @ ?m # []"
    by (simp add: waiting_ready_eq)
  have h2: "distinct (map future ([] @ [?m]))" by simp
  have h3: "\<forall>l\<in>set ([]::listener list). futures waiting_ready (future l) = Cancelled
              \<or> (futures waiting_ready (future l) = Pending \<and> predicate l ?a \<noteq> Inr True)"
    by simp
  have h4: "futures waiting_ready (future ?m) = Pending" by (simp add: waiting_ready_eq)
  have h5: "predicate ?m ?a = Inr True"
    by (simp add: waiting_ready_eq ready_one_large_eq chunk_predicate_def)
  have c: "users waiting_ready \<noteq> [] \<and> guilds waiting_ready = [(7, 1)] \<and> user waiting_ready \<noteq> None"
    by (simp add: waiting_ready_eq ready_one_large_eq after_ready_eq)
  note T = clear_keeps_listeners [of waiting_ready ?a "JInt 1000" "[]" ?m "[]"]
  have F: "users (clear waiting_ready) = [] \<and> guilds (clear waiting_ready) = []
       \<and> user (clear waiting_ready) = None
       \<and> listeners (clear waiting_ready) = listeners waiting_ready"
    by (simp add: clear_def)
  have I: "listeners waiting_ready = [] @ ?m # [] \<and> distinct (map future ([] @ [?m]))
        \<and> (\<forall>l\<in>set ([]::listener list). futures waiting_ready (future l) = Cancelled
                 \<or> (futures waiting_ready (future l) = Pending \<and> predicate l ?a \<noteq> Inr True))
        \<and> futures waiting_ready (future ?m) = Pending \<and> predicate ?m ?a = Inr True \<longrightarrow>
        fst (process_listeners chunk ?a (JInt 1000) (clear waiting_ready)) = None
      \<and> futures (snd (process_listeners chunk ?a (JInt 1000) (clear waiting_ready))) (future ?m)
          = Finished (JInt 1000)
      \<and> listeners (snd (process_listeners chunk ?a (JInt 1000) (clear waiting_ready)))
          = [l\<leftarrow>([]::listener list). futures waiting_ready (future l) = Pending \<and> predicate l ?a = Inr False] @ []"
    using T by (elim conjE)
  have H: "listeners waiting_ready = [] @ ?m # [] \<and> distinct (map future ([] @ [?m]))
        \<and> (\<forall>l\<in>set ([]::listener list). futures waiting_ready (future l) = Cancelled
                 \<or> (futures waiting_ready (future l) = Pending \<and> predicate l ?a \<noteq> Inr True))
        \<and> futures waiting_ready (future ?m) = Pending \<and> predicate ?m ?a = Inr True"
    using h1 h2 h3 h4 h5 by (intro conjI)
  have L: "fst (process_listeners chunk ?a (JInt 1000) (clear waiting_ready)) = None
      \<and> futures (snd (process_listeners chunk ?a (JInt 1000) (clear waiting_ready))) (future ?m)
          = Finished (JInt 1000)
      \<and> listeners (snd (process_listeners chunk ?a (JInt 1000) (clear waiting_ready)))
          = [l\<leftarrow>([]::listener list). futures waiting_ready (future l) = Pending \<and> predicate l ?a = Inr False] @ []"
    using I H by (rule mp)
  have L1: "fst (process_listeners chunk ?a (JInt 1000) (clear waiting_ready)) = None"
    and L2: "futures (snd (process_listeners chunk ?a (JInt 1000) (clear waiting_ready))) 2
          = Finished (JInt 1000)"
    and L3: "listeners (snd (process_listeners chunk ?a (JInt 1000) (clear waiting_ready))) = []"
    using L by simp_all
  have F': "map future (listeners (clear waiting_ready)) = [2]"
    using F h1 by simp
  show ?thesis
    using F F' L1 L2 L3 h1 h4 h5 c by (intro conjI) simp_all
qed

end
